theory Spec2Isabelle
  imports Complex_Main "HOL-Library.Signed_Division"
begin

section \<open>Values of the host language\<close>

text \<open>
  The program is TypeScript.  A \<^verbatim>\<open>throw\<close> is modelled as the left summand of a sum type:
  \<open>Error msg\<close> is \<^verbatim>\<open>new Error(msg)\<close>; \<open>TypeError\<close> is what the runtime raises when a property
  of \<^verbatim>\<open>undefined\<close> is read; \<open>Rejected\<close> is a failure raised inside a collaborator.  A promise
  that rejects is a left summand too.  \<open>Raced es\<close> is the rejection of an aggregate whose
  members failed after they had suspended, with the reasons \<open>es\<close> in array order: the
  aggregate rejects with the one of them that came first in time.
\<close>

datatype error = Error string | TypeError | Rejected string | Raced "error list"

definition bindE :: "error + 'a \<Rightarrow> ('a \<Rightarrow> error + 'b) \<Rightarrow> error + 'b" where
  "bindE m f = (case m of Inl e \<Rightarrow> Inl e | Inr x \<Rightarrow> f x)"

text \<open>\<^verbatim>\<open>xs.forEach(f)\<close> with a callback that updates local state and may throw.\<close>

fun forEach :: "('s \<Rightarrow> 'a \<Rightarrow> error + 's) \<Rightarrow> 'a list \<Rightarrow> 's \<Rightarrow> error + 's" where
  "forEach f [] st = Inr st"
| "forEach f (x # xs) st = (case f st x of Inl e \<Rightarrow> Inl e | Inr st' \<Rightarrow> forEach f xs st')"

text \<open>\<^verbatim>\<open>xs.map(f)\<close> with a callback that may throw: the first throw aborts the map.\<close>

fun mapE :: "('a \<Rightarrow> error + 'b) \<Rightarrow> 'a list \<Rightarrow> error + 'b list" where
  "mapE f [] = Inr []"
| "mapE f (x # xs) =
     (case f x of Inl e \<Rightarrow> Inl e
      | Inr y \<Rightarrow> (case mapE f xs of Inl e \<Rightarrow> Inl e | Inr ys \<Rightarrow> Inr (y # ys)))"

text \<open>
  \<^verbatim>\<open>String.prototype.toLowerCase\<close> on the ASCII range, where token addresses and venue
  keys live; bytes outside \<open>A..Z\<close> are left as they are.
\<close>

definition toLowerCase_char :: "char \<Rightarrow> char" where
  "toLowerCase_char c =
     (let n = (of_char c :: nat) in if 65 \<le> n \<and> n \<le> 90 then char_of (n + 32) else c)"

definition toLowerCase :: "string \<Rightarrow> string" where
  "toLowerCase s = map toLowerCase_char s"

text \<open>
  \<^verbatim>\<open>xs[0]\<close> on an array whose elements may be \<^verbatim>\<open>undefined\<close> (\<open>None\<close>): reading past the
  end does not throw, it yields \<^verbatim>\<open>undefined\<close>.
\<close>

definition at0 :: "'a option list \<Rightarrow> 'a option" where
  "at0 xs = (case xs of [] \<Rightarrow> None | x # _ \<Rightarrow> x)"

text \<open>
  The three operations the route merger applies to gas costs, \<^verbatim>\<open>parseFloat(s)\<close>, \<^verbatim>\<open>a + b\<close> on
  numbers and \<^verbatim>\<open>x.toFixed(d)\<close>, are handed to the model of the merger as a record, so that
  what does not depend on arithmetic is proved once for any number type.  The host language's
  own operations are \<open>jsFloat\<close> below.
\<close>

record 'n float_ops =
  parseFloat :: "string \<Rightarrow> 'n"
  fadd :: "'n \<Rightarrow> 'n \<Rightarrow> 'n"
  toFixed :: "'n \<Rightarrow> nat \<Rightarrow> string"

subsection \<open>The type \<^verbatim>\<open>number\<close>\<close>

text \<open>
  A \<^verbatim>\<open>number\<close> is an IEEE 754 double: not-a-number, an infinity, the negative zero, or a
  finite value, kept as the rational it denotes (\<open>Num 0\<close> is the positive zero).
\<close>

datatype number = NaN | Infinity | MinusInfinity | MinusZero | Num rat

text \<open>\<open>bits n\<close> is the length of the binary numeral of \<open>n\<close>; \<open>decimalDigits n\<close> is its decimal numeral.\<close>

function bits :: "int \<Rightarrow> int" where
  "bits n = (if n \<le> 0 then 0 else bits (n div 2) + 1)"
  by pat_completeness auto

termination
  by (relation "measure nat") auto

declare bits.simps [simp del]

function decimalDigits :: "int \<Rightarrow> string" where
  "decimalDigits n =
     (if n < 10 then [char_of (48 + n)]
      else decimalDigits (n div 10) @ [char_of (48 + n mod 10)])"
  by pat_completeness auto

termination
  by (relation "measure nat") auto

declare decimalDigits.simps [simp del]

definition pow2 :: "int \<Rightarrow> rat" where
  "pow2 e = (if 0 \<le> e then of_int (2 ^ nat e) else 1 / of_int (2 ^ nat (- e)))"

definition pow10 :: "int \<Rightarrow> rat" where
  "pow10 e = (if 0 \<le> e then of_int (10 ^ nat e) else 1 / of_int (10 ^ nat (- e)))"

text \<open>\<open>\<lfloor>log\<^sub>2 a\<rfloor>\<close> for a positive rational \<open>a = p / d\<close>: it is \<open>bits p - bits d\<close> or one less.\<close>

definition floorLog2 :: "rat \<Rightarrow> int" where
  "floorLog2 a =
     (let (p, d) = quotient_of a;
          e0 = bits p - bits d
      in if pow2 e0 \<le> a then e0 else e0 - 1)"

definition roundHalfEven :: "rat \<Rightarrow> int" where
  "roundHalfEven x =
     (let f = \<lfloor>x\<rfloor>; d = x - of_int f
      in if d < 1 / 2 then f else if 1 / 2 < d then f + 1 else if even f then f else f + 1)"

text \<open>
  \<open>toDouble x\<close> is the \<^emph>\<open>Number value for\<close> the real \<open>x\<close> of the language specification: the
  double nearest to \<open>x\<close>, the one with the even significand when two are equally near, an
  infinity when the rounded magnitude reaches \<open>2\<^sup>1\<^sup>0\<^sup>2\<^sup>4\<close>, and a zero with the sign of \<open>x\<close> when
  it rounds to zero.  Around \<open>a = \<bar>x\<bar>\<close> the doubles are the multiples of \<open>u = 2\<^sup>e\<^sup>-\<^sup>5\<^sup>2\<close> with
  \<open>e = \<lfloor>log\<^sub>2 a\<rfloor>\<close>, and of \<open>2\<^sup>-\<^sup>1\<^sup>0\<^sup>7\<^sup>4\<close> below \<open>2\<^sup>-\<^sup>1\<^sup>0\<^sup>2\<^sup>2\<close>.
\<close>

definition toDouble :: "rat \<Rightarrow> number" where
  "toDouble x =
     (if x = 0 then Num 0
      else
        (let a = \<bar>x\<bar>;
             e = max (floorLog2 a) (- 1022);
             u = pow2 (e - 52);
             r = of_int (roundHalfEven (a / u)) * u
         in if pow2 1024 \<le> r then (if 0 < x then Infinity else MinusInfinity)
            else if r = 0 then (if 0 < x then Num 0 else MinusZero)
            else Num (if 0 < x then r else - r)))"

text \<open>
  \<^verbatim>\<open>parseFloat(s)\<close>: leading white space is dropped, then the longest prefix that is a
  \<^verbatim>\<open>StrDecimalLiteral\<close> is read (a sign, then \<^verbatim>\<open>Infinity\<close> or digits with an optional
  fraction and an optional exponent; an exponent mark without digits is not part of the
  literal); the result is \<^verbatim>\<open>NaN\<close> when there is no such prefix.  A string is a list of 8-bit
  characters, of which the white space is TAB, LF, VT, FF, CR, SP and NBSP.  The value of the
  literal is converted without intermediate rounding, as the engines do (the specification
  tolerates a deviation after the 20th significant digit).
\<close>

definition isDigit :: "char \<Rightarrow> bool" where
  "isDigit c \<longleftrightarrow> 48 \<le> (of_char c :: nat) \<and> (of_char c :: nat) \<le> 57"

definition isWhiteSpace :: "char \<Rightarrow> bool" where
  "isWhiteSpace c \<longleftrightarrow> (of_char c :: nat) \<in> {9, 10, 11, 12, 13, 32, 160}"

definition digitsValue :: "string \<Rightarrow> int" where
  "digitsValue ds = foldl (\<lambda>n c. 10 * n + (of_char c - 48)) 0 ds"

text \<open>The exponent that follows the digits in \<open>s\<close>, or \<open>0\<close> when \<open>s\<close> does not start with one.\<close>

definition exponentPart :: "string \<Rightarrow> int" where
  "exponentPart s =
     (case s of
        [] \<Rightarrow> 0
      | c # t \<Rightarrow>
          if c = CHR ''e'' \<or> c = CHR ''E'' then
            (case t of
               [] \<Rightarrow> 0
             | sg # t' \<Rightarrow>
                 if sg = CHR ''+'' then
                   (if takeWhile isDigit t' = [] then 0 else digitsValue (takeWhile isDigit t'))
                 else if sg = CHR ''-'' then
                   (if takeWhile isDigit t' = [] then 0 else - digitsValue (takeWhile isDigit t'))
                 else
                   (if takeWhile isDigit t = [] then 0 else digitsValue (takeWhile isDigit t)))
          else 0)"

text \<open>
  The mathematical value of the longest prefix of \<open>s\<close> that is an unsigned decimal literal
  (\<^verbatim>\<open>12\<close>, \<^verbatim>\<open>12.\<close>, \<^verbatim>\<open>12.5\<close>, \<^verbatim>\<open>.5\<close>, each with an optional exponent), if there is one.
\<close>

definition unsignedDecimal :: "string \<Rightarrow> rat option" where
  "unsignedDecimal s =
     (let ip = takeWhile isDigit s;
          r1 = dropWhile isDigit s;
          fr = (case r1 of [] \<Rightarrow> [] | c # t \<Rightarrow> if c = CHR ''.'' then takeWhile isDigit t else []);
          r2 = (case r1 of [] \<Rightarrow> [] | c # t \<Rightarrow> if c = CHR ''.'' then dropWhile isDigit t else r1)
      in if ip = [] \<and> fr = [] then None
         else Some (of_int (digitsValue (ip @ fr)) * pow10 (exponentPart r2 - int (length fr))))"

definition Number_parseFloat :: "string \<Rightarrow> number" where
  "Number_parseFloat s =
     (let t = dropWhile isWhiteSpace s;
          neg = (case t of [] \<Rightarrow> False | c # _ \<Rightarrow> c = CHR ''-'');
          u = (case t of [] \<Rightarrow> [] | c # r \<Rightarrow> if c = CHR ''-'' \<or> c = CHR ''+'' then r else t)
      in if take 8 u = ''Infinity'' then (if neg then MinusInfinity else Infinity)
         else (case unsignedDecimal u of
                 None \<Rightarrow> NaN
               | Some mv \<Rightarrow>
                   if mv = 0 then (if neg then MinusZero else Num 0)
                   else toDouble (if neg then - mv else mv)))"

text \<open>
  \<^verbatim>\<open>a + b\<close> on numbers: the exact sum, rounded once.  An exact sum of zero is the positive
  zero, except that the sum of two negative zeros is the negative zero.
\<close>

fun Number_add :: "number \<Rightarrow> number \<Rightarrow> number" where
  "Number_add NaN y = NaN"
| "Number_add x NaN = NaN"
| "Number_add Infinity MinusInfinity = NaN"
| "Number_add MinusInfinity Infinity = NaN"
| "Number_add Infinity y = Infinity"
| "Number_add x Infinity = Infinity"
| "Number_add MinusInfinity y = MinusInfinity"
| "Number_add x MinusInfinity = MinusInfinity"
| "Number_add MinusZero y = y"
| "Number_add x MinusZero = x"
| "Number_add (Num a) (Num b) = toDouble (a + b)"

text \<open>
  \<^verbatim>\<open>x.toFixed(f)\<close> for \<open>0 \<le> f \<le> 100\<close>.  Below \<open>10\<^sup>2\<^sup>1\<close> in magnitude the digits are those of the
  integer \<open>n\<close> for which \<open>n / 10\<^sup>f - x\<close> is as close to zero as possible, the larger \<open>n\<close> if
  there are two: this is \<open>\<lfloor>x \<cdot> 10\<^sup>f + 1/2\<rfloor>\<close>, computed on the exact value of the double.
  \<open>fixedDigits n f\<close> pads the numeral of \<open>n\<close> to \<open>f + 1\<close> digits and puts the point before the
  last \<open>f\<close>.
\<close>

definition fixedDigits :: "int \<Rightarrow> nat \<Rightarrow> string" where
  "fixedDigits n f =
     (if f = 0 then decimalDigits n
      else
        (let m = replicate (f + 1 - length (decimalDigits n)) (CHR ''0'') @ decimalDigits n
         in take (length m - f) m @ ''.'' @ drop (length m - f) m))"

text \<open>
  From \<open>10\<^sup>2\<^sup>1\<close> on, \<^verbatim>\<open>toFixed\<close> answers with \<^verbatim>\<open>Number::toString\<close>: the shortest digit string
  \<open>s\<close> of \<open>k\<close> digits and the exponent \<open>n\<close> such that \<open>s \<cdot> 10\<^sup>n\<^sup>-\<^sup>k\<close> converts to the number; of
  several \<open>s\<close> of that length the one nearest to the number, the even one of two equally near.
  Such a number is an integer \<open>X\<close>, and with \<open>n0\<close> its number of digits and \<open>g = 10\<^sup>n\<^sup>0\<^sup>-\<^sup>k\<close> the
  candidates of length \<open>k\<close> are \<open>X div g\<close> and its successor.  The result is printed as
  \<^verbatim>\<open>d.ddde+N\<close>.
\<close>

definition validDigits :: "int \<Rightarrow> int \<Rightarrow> int \<Rightarrow> bool" where
  "validDigits X g v \<longleftrightarrow> toDouble (of_int (v * g)) = Num (of_int X)"

definition shortestAt :: "int \<Rightarrow> nat \<Rightarrow> (int \<times> nat) option" where
  "shortestAt X k =
     (let n0 = length (decimalDigits X);
          g = 10 ^ (n0 - k);
          lo = X div g;
          hi = lo + 1;
          dlo = X - lo * g;
          dhi = hi * g - X;
          pick = (if validDigits X g lo \<and> validDigits X g hi then
                    Some (if dlo < dhi then lo else if dhi < dlo then hi else if even lo then lo else hi)
                  else if validDigits X g lo then Some lo
                  else if validDigits X g hi then Some hi
                  else None)
      in case pick of
           None \<Rightarrow> None
         | Some s \<Rightarrow> if s = 10 ^ k then Some (10 ^ (k - 1), n0 + 1) else Some (s, n0))"

definition shortest :: "int \<Rightarrow> int \<times> nat" where
  "shortest X =
     (case List.map_filter (shortestAt X) [1 ..< 18] of
        [] \<Rightarrow> (X, length (decimalDigits X))
      | r # _ \<Rightarrow> r)"

definition largeToString :: "rat \<Rightarrow> string" where
  "largeToString x =
     (let (s, n) = shortest \<lfloor>x\<rfloor>;
          ds = decimalDigits s
      in (if length ds = 1 then ds else hd ds # ''.'' @ tl ds) @ ''e+'' @ decimalDigits (int n - 1))"

definition Number_toFixed :: "number \<Rightarrow> nat \<Rightarrow> string" where
  "Number_toFixed x f =
     (case x of
        NaN \<Rightarrow> ''NaN''
      | Infinity \<Rightarrow> ''Infinity''
      | MinusInfinity \<Rightarrow> ''-Infinity''
      | MinusZero \<Rightarrow> fixedDigits 0 f
      | Num q \<Rightarrow>
          (if q < 0 then ''-'' else []) @
          (if pow10 21 \<le> \<bar>q\<bar> then largeToString \<bar>q\<bar>
           else fixedDigits \<lfloor>\<bar>q\<bar> * pow10 (int f) + 1 / 2\<rfloor> f))"

text \<open>The operations of the host language.\<close>

definition jsFloat :: "number float_ops" where
  "jsFloat =
     \<lparr>parseFloat = Number_parseFloat, fadd = Number_add, toFixed = Number_toFixed\<rparr>"

section \<open>Data model\<close>

type_synonym Address = string
type_synonym opaque = string

text \<open>
  The payload \<^verbatim>\<open>data\<close> of a swap exchange is typed \<^verbatim>\<open>any\<close>.  The merger reads
  \<^verbatim>\<open>data.path\<close> (legs with \<^verbatim>\<open>tokenIn\<close>, \<^verbatim>\<open>tokenOut\<close>) and \<^verbatim>\<open>data.gasUSD\<close>; whatever else
  a leg or a payload carries is kept as an opaque value.
\<close>

record pathLeg =
  tokenIn :: Address
  tokenOut :: Address
  legParams :: opaque

record swapData =
  path :: "pathLeg list"
  gasUSD :: string
  otherData :: opaque

text \<open>
  \<^verbatim>\<open>poolAddresses?: string[]\<close> is optional (\<open>None\<close> is \<^verbatim>\<open>undefined\<close>); its elements are
  options too, because the merger can push \<^verbatim>\<open>undefined\<close> into it.
\<close>

record optimalSwapExchange =
  exchange :: string
  srcAmount :: string
  destAmount :: string
  percent :: int
  data :: swapData
  poolAddresses :: "Address option list option"

record optimalSwap =
  srcToken :: Address
  srcDecimals :: int
  destToken :: Address
  destDecimals :: int
  swapExchanges :: "optimalSwapExchange list"

record optimalRoute =
  routePercent :: int
  swaps :: "optimalSwap list"

datatype ParaSwapVersion = V5 | V6

datatype SwapSide = SELL | BUY

record unoptimizedRate =
  blockNumber :: int
  network :: int
  rateSrcToken :: Address
  rateSrcDecimals :: int
  rateSrcAmount :: string
  rateDestToken :: Address
  rateDestDecimals :: int
  rateDestAmount :: string
  bestRoute :: "optimalRoute list"
  gasCostUSD :: string
  gasCost :: string
  others :: "opaque list"
  version :: ParaSwapVersion
  side :: SwapSide
  tokenTransferProxy :: Address
  contractAddress :: Address

section \<open>The route merger \<^verbatim>\<open>curveV1Merge\<close>\<close>

text \<open>
  \<^verbatim>\<open>fixRoute\<close> walks the hops of one route with two locals: the output array
  \<^verbatim>\<open>optimizedRate\<close> and \<^verbatim>\<open>lastExchange\<close>, which is \<^verbatim>\<open>false\<close> or a reference to an object
  that was pushed to \<^verbatim>\<open>optimizedRate\<close>.  The reference is modelled as the index of that
  object in the array, so that a mutation through \<^verbatim>\<open>lastExchange\<close> is an update of the array
  at that index.  \<^verbatim>\<open>_.cloneDeep(s)\<close> yields a fresh object equal to \<open>s\<close>, so the input hops
  are never written to.
\<close>

record fixRouteState =
  lastExchange :: "nat option"
  optimizedRate :: "optimalSwap list"

text \<open>The first branch of the loop body: the hop cannot take part in a merge.\<close>

definition notMergeable :: "string list \<Rightarrow> optimalSwap \<Rightarrow> bool" where
  "notMergeable CurveV1FactoryForks s \<longleftrightarrow>
     length (swapExchanges s) \<noteq> 1 \<or>
     toLowerCase (exchange (hd (swapExchanges s))) \<notin> set CurveV1FactoryForks"

text \<open>
  The test of the second branch, once \<^verbatim>\<open>lastExchange\<close> is known to be an object \<open>l\<close>:
  \<^verbatim>\<open>_.last(l.swapExchanges[0].data.path)!.tokenOut.toLowerCase() ===
     s.swapExchanges[0].data.path[0].tokenIn.toLowerCase()\<close>.
  Reading \<^verbatim>\<open>.data\<close> of a missing exchange, \<^verbatim>\<open>.tokenOut\<close> of the last leg of an empty path or
  \<^verbatim>\<open>.tokenIn\<close> of the first leg of an empty path throws.
\<close>

definition boundaryMatches :: "optimalSwap \<Rightarrow> optimalSwap \<Rightarrow> error + bool" where
  "boundaryMatches l s =
     (case swapExchanges l of [] \<Rightarrow> Inl TypeError
      | le # _ \<Rightarrow>
        (case path (data le) of [] \<Rightarrow> Inl TypeError
         | p # ps \<Rightarrow>
           (case swapExchanges s of [] \<Rightarrow> Inl TypeError
            | se # _ \<Rightarrow>
              (case path (data se) of [] \<Rightarrow> Inl TypeError
               | q # _ \<Rightarrow>
                 Inr (toLowerCase (tokenOut (last (p # ps))) = toLowerCase (tokenIn q))))))"

text \<open>
  The body of the second branch: the writes through \<^verbatim>\<open>lastExchange\<close>, collected into the
  new value of the object \<open>l\<close> it refers to.  \<^verbatim>\<open>poolAddresses!.push\<close> throws when the
  candidate has no \<^verbatim>\<open>poolAddresses\<close>, and \<^verbatim>\<open>s.swapExchanges[0].poolAddresses![0]\<close> throws
  when the absorbed hop has none.
\<close>

definition fuse :: "'n float_ops \<Rightarrow> optimalSwap \<Rightarrow> optimalSwap \<Rightarrow> error + optimalSwap" where
  "fuse fp l s =
     (case swapExchanges l of [] \<Rightarrow> Inl TypeError
      | le # lrest \<Rightarrow>
        (case swapExchanges s of [] \<Rightarrow> Inl TypeError
         | se # _ \<Rightarrow>
           (case path (data se) of [] \<Rightarrow> Inl TypeError
            | q # _ \<Rightarrow>
              (case poolAddresses le of None \<Rightarrow> Inl TypeError
               | Some lpa \<Rightarrow>
                 (case poolAddresses se of None \<Rightarrow> Inl TypeError
                  | Some spa \<Rightarrow>
                    Inr (l\<lparr>destToken := destToken s,
                           destDecimals := destDecimals s,
                           swapExchanges :=
                             le\<lparr>data := (data le)
                                   \<lparr>path := path (data le) @ [q],
                                    gasUSD := toFixed fp
                                      (fadd fp (parseFloat fp (gasUSD (data le)))
                                               (parseFloat fp (gasUSD (data se)))) 6\<rparr>,
                                poolAddresses := Some (lpa @ [at0 spa]),
                                destAmount := destAmount se\<rparr> # lrest\<rparr>))))))"

text \<open>The third branch: \<^verbatim>\<open>lastExchange = _.cloneDeep(s); optimizedRate.push(lastExchange)\<close>.\<close>

definition startCandidate :: "fixRouteState \<Rightarrow> optimalSwap \<Rightarrow> fixRouteState" where
  "startCandidate st s =
     \<lparr>lastExchange = Some (length (optimizedRate st)),
      optimizedRate = optimizedRate st @ [s]\<rparr>"

definition fixRoute_step ::
  "'n float_ops \<Rightarrow> string list \<Rightarrow> fixRouteState \<Rightarrow> optimalSwap \<Rightarrow> error + fixRouteState" where
  "fixRoute_step fp CurveV1FactoryForks st s =
     (if notMergeable CurveV1FactoryForks s
      then Inr \<lparr>lastExchange = None, optimizedRate = optimizedRate st @ [s]\<rparr>
      else (case lastExchange st of
              None \<Rightarrow> Inr (startCandidate st s)
            | Some i \<Rightarrow>
                (case boundaryMatches (optimizedRate st ! i) s of
                   Inl e \<Rightarrow> Inl e
                 | Inr True \<Rightarrow>
                     (case fuse fp (optimizedRate st ! i) s of
                        Inl e \<Rightarrow> Inl e
                      | Inr l' \<Rightarrow> Inr (st\<lparr>optimizedRate := (optimizedRate st)[i := l']\<rparr>))
                 | Inr False \<Rightarrow> Inr (startCandidate st s))))"

definition fixRoute ::
  "'n float_ops \<Rightarrow> string list \<Rightarrow> optimalSwap list \<Rightarrow> error + optimalSwap list" where
  "fixRoute fp CurveV1FactoryForks rawRate =
     (case forEach (fixRoute_step fp CurveV1FactoryForks) rawRate
             \<lparr>lastExchange = None, optimizedRate = []\<rparr> of
        Inl e \<Rightarrow> Inl e
      | Inr st \<Rightarrow> Inr (optimizedRate st))"

text \<open>
  \<open>CurveV1FactoryForks\<close>, the lower-cased keys of two configuration tables, is a parameter.
  The function assigns \<^verbatim>\<open>or.bestRoute\<close> only after every route has been rebuilt, so a
  throw leaves the rate as it was.  The source's parameter \<^verbatim>\<open>or\<close> is called \<open>rate\<close>.
\<close>

definition curveV1Merge ::
  "'n float_ops \<Rightarrow> string list \<Rightarrow> unoptimizedRate \<Rightarrow> error + unoptimizedRate" where
  "curveV1Merge fp CurveV1FactoryForks rate =
     (if version rate \<noteq> V6 then Inr rate
      else (case mapE (\<lambda>r. case fixRoute fp CurveV1FactoryForks (swaps r) of
                               Inl e \<Rightarrow> Inl e
                             | Inr sw \<Rightarrow> Inr (r\<lparr>swaps := sw\<rparr>)) (bestRoute rate) of
              Inl e \<Rightarrow> Inl e
            | Inr rs \<Rightarrow> Inr (rate\<lparr>bestRoute := rs\<rparr>)))"

section \<open>The local SDK: \<^verbatim>\<open>getPrices\<close> and \<^verbatim>\<open>buildTransaction\<close>\<close>

subsection \<open>Integers and strings\<close>

text \<open>
  \<^verbatim>\<open>bigint\<close> is \<open>int\<close>.  Its division truncates towards zero, which is \<open>sdiv\<close>.
  \<^verbatim>\<open>toString()\<close> of a \<^verbatim>\<open>bigint\<close> is its decimal numeral; for an integer-valued \<^verbatim>\<open>number\<close>
  below \<open>10\<^sup>2\<^sup>1\<close> in magnitude it is the same numeral.
\<close>

fun natToString :: "nat \<Rightarrow> string" where
  "natToString n =
     (if n < 10 then [char_of (48 + n)]
      else natToString (n div 10) @ [char_of (48 + n mod 10)])"

declare natToString.simps [simp del]

definition toString :: "int \<Rightarrow> string" where
  "toString i = (if i < 0 then CHR ''-'' # natToString (nat (- i)) else natToString (nat i))"

text \<open>\<^verbatim>\<open>xs.join(sep)\<close> on an array of strings.\<close>

fun join :: "string \<Rightarrow> string list \<Rightarrow> string" where
  "join sep [] = []"
| "join sep [x] = x"
| "join sep (x # y # ys) = x @ sep @ join sep (y # ys)"

subsection \<open>Collaborators\<close>

record Token =
  address :: Address
  decimals :: int

text \<open>
  One quote of the pricing collaborator (\<^verbatim>\<open>ExchangePrices\<close>), with the fields the result
  of \<^verbatim>\<open>getPrices\<close> depends on.  They carry the prefix \<open>quote\<close> where a swap exchange has a
  field of the same name.
\<close>

record exchangePrices =
  prices :: "int list"
  quoteData :: swapData
  quoteExchange :: string
  quotePoolAddresses :: "Address option list option"

type_synonym poolIdentifiers = "(string \<times> string list option) list"

text \<open>
  \<^verbatim>\<open>OptimalRate\<close>: the rate with the fields \<^verbatim>\<open>getPrices\<close> adds.
\<close>

record optimalRate = unoptimizedRate +
  hmac :: string
  srcUSD :: string
  destUSD :: string
  contractMethod :: string
  partnerFee :: int

text \<open>
  \<^verbatim>\<open>slippageFactor\<close> is \<^verbatim>\<open>new BigNumber(a).div(b)\<close>.  It is only handed to the venue's
  preprocessing, so the quotient is kept as its two operands.
\<close>

record slippage =
  dividend :: string
  divisor :: string

record preProcessOptions =
  slippageFactor :: slippage
  txOrigin :: Address
  executionContractAddress :: Address
  isDirectMethod :: bool
  optionsVersion :: ParaSwapVersion
  recipient :: Address

text \<open>
  Modelled from the spec: the declaration of \<^verbatim>\<open>TxInfo\<close> is not part of the sources.  The
  auxiliary info of a preprocessing step "may include a proposed deadline": an optional
  integer of seconds (a \<^verbatim>\<open>bigint\<close>, for which \<open>0\<close> is falsy), taken in the range where
  \<^verbatim>\<open>Number(d)\<close> is \<open>d\<close> itself.
\<close>

record txInfo =
  txDeadline :: "int option"

text \<open>
  A venue as the pricing helper returns it.  Both capabilities are optional methods:
  \<open>None\<close> is a method the venue does not have.  The token lookup answers with a token or
  with nothing (\<^verbatim>\<open>undefined\<close>, \<open>None\<close>), and the program hands its answer on as it is.  The
  preprocessing is asynchronous: it returns a promise, which resolves to the rewritten
  exchange and its auxiliary info, or rejects (\<open>Inl\<close>) with a reason, at a time the venue
  decides.
\<close>

record dexLib =
  preProcessTransaction ::
    "(optimalSwapExchange \<Rightarrow> Token option \<Rightarrow> Token option \<Rightarrow> SwapSide \<Rightarrow> preProcessOptions
        \<Rightarrow> error + optimalSwapExchange \<times> txInfo) option"
  getTokenFromAddress :: "(Address \<Rightarrow> Token option) option"

text \<open>The payload handed to \<^verbatim>\<open>transactionBuilder.build\<close>.\<close>

record buildParams =
  priceRoute :: optimalRate
  minMaxAmount :: string
  userAddress :: Address
  partnerAddress :: Address
  partnerFeePercent :: string
  deadline :: string
  uuid :: string

text \<open>
  The members of \<^verbatim>\<open>LocalParaswapSDK\<close>.  Their code is outside the sources; the model takes
  what each call returns.  \<open>getBlockNumber\<close> is the block number the provider answers with.
  Only the venue's preprocessing and the final \<^verbatim>\<open>build\<close> are given a failing outcome; the
  lookups and \<^verbatim>\<open>getDexCallsParams\<close> are taken to return.
\<close>

record DexHelper =
  getBlockNumber :: int
  tokenTransferProxyAddress :: Address
  augustusAddress :: Address

record PricingHelper =
  getPoolIdentifiers ::
    "Token \<Rightarrow> Token \<Rightarrow> SwapSide \<Rightarrow> int \<Rightarrow> string list \<Rightarrow> poolIdentifiers"
  getPoolPrices ::
    "Token \<Rightarrow> Token \<Rightarrow> int list \<Rightarrow> SwapSide \<Rightarrow> int \<Rightarrow> string list \<Rightarrow> poolIdentifiers
       \<Rightarrow> opaque option \<Rightarrow> exchangePrices list option"
  optimizeRate :: "unoptimizedRate \<Rightarrow> unoptimizedRate"
  getDexByKey :: "string \<Rightarrow> dexLib option"

record DexAdapterService =
  getTxBuilderDexByKey :: "string \<Rightarrow> opaque"

record TransactionBuilder =
  getDexCallsParams ::
    "optimalRate \<Rightarrow> nat \<Rightarrow> optimalSwap \<Rightarrow> nat \<Rightarrow> optimalSwapExchange \<Rightarrow> string \<Rightarrow> opaque
       \<Rightarrow> Address \<Rightarrow> Address"
  build :: "buildParams \<Rightarrow> error + opaque"

record LocalParaswapSDK =
  sdkNetwork :: int
  dexKeys :: "string list"
  dexHelper :: DexHelper
  dexAdapterService :: DexAdapterService
  pricingHelper :: PricingHelper
  transactionBuilder :: TransactionBuilder

subsection \<open>\<^verbatim>\<open>getPrices\<close>\<close>

definition chunks :: nat where
  "chunks = 10"

text \<open>\<^verbatim>\<open>_.range(0, chunks + 1).map(i => (amount * BigInt(i)) / BigInt(chunks))\<close>\<close>

definition amounts :: "int \<Rightarrow> int list" where
  "amounts amount = map (\<lambda>i. (amount * int i) sdiv int chunks) [0 ..< chunks + 1]"

text \<open>The object literal \<^verbatim>\<open>unoptimizedRate\<close>.\<close>

definition unoptimizedRateOf ::
  "LocalParaswapSDK \<Rightarrow> Token \<Rightarrow> Token \<Rightarrow> SwapSide \<Rightarrow> exchangePrices \<Rightarrow> string \<Rightarrow> string
     \<Rightarrow> unoptimizedRate" where
  "unoptimizedRateOf sdk from to sd finalPrice srcAmt destAmt =
     \<lparr>blockNumber = getBlockNumber (dexHelper sdk),
      network = sdkNetwork sdk,
      rateSrcToken = address from,
      rateSrcDecimals = decimals from,
      rateSrcAmount = srcAmt,
      rateDestToken = address to,
      rateDestDecimals = decimals to,
      rateDestAmount = destAmt,
      bestRoute =
        [\<lparr>routePercent = 100,
          swaps =
            [\<lparr>srcToken = address from,
              srcDecimals = decimals from,
              destToken = address to,
              destDecimals = decimals to,
              swapExchanges =
                [\<lparr>exchange = quoteExchange finalPrice,
                  srcAmount = srcAmt,
                  destAmount = destAmt,
                  percent = 100,
                  data = quoteData finalPrice,
                  poolAddresses = quotePoolAddresses finalPrice\<rparr>]\<rparr>]\<rparr>],
      gasCostUSD = ''0'',
      gasCost = ''0'',
      others = [],
      version = V5,
      side = sd,
      tokenTransferProxy = tokenTransferProxyAddress (dexHelper sdk),
      contractAddress = augustusAddress (dexHelper sdk)\<rparr>"

text \<open>
  \<^verbatim>\<open>getPrices\<close>.  An absent or empty answer of the pricing collaborator throws.  The quote
  read is \<^verbatim>\<open>poolPrices[0].prices[chunks]\<close>; when the price list is too short this is
  \<^verbatim>\<open>undefined\<close> and \<^verbatim>\<open>.toString()\<close> on it throws.  The \<^verbatim>\<open>console.log\<close> of the gas cost has no
  effect on the result and is left out.
\<close>

definition getPrices ::
  "LocalParaswapSDK \<Rightarrow> Token \<Rightarrow> Token \<Rightarrow> int \<Rightarrow> SwapSide \<Rightarrow> string
     \<Rightarrow> poolIdentifiers option \<Rightarrow> opaque option \<Rightarrow> error + optimalRate" where
  "getPrices sdk from to amount sd method poolIds transferFees =
     (let blockNo = getBlockNumber (dexHelper sdk);
          poolIdentifiers =
            (case poolIds of
               Some ids \<Rightarrow> ids
             | None \<Rightarrow> getPoolIdentifiers (pricingHelper sdk) from to sd blockNo (dexKeys sdk));
          poolPrices = getPoolPrices (pricingHelper sdk) from to (amounts amount) sd blockNo
                         (dexKeys sdk) poolIdentifiers transferFees
      in case poolPrices of
           None \<Rightarrow> Inl (Error (''Fail to get price for '' @ join '', '' (dexKeys sdk)))
         | Some [] \<Rightarrow> Inl (Error (''Fail to get price for '' @ join '', '' (dexKeys sdk)))
         | Some (finalPrice # _) \<Rightarrow>
             (if chunks < length (prices finalPrice)
              then
                (let quoteAmount = prices finalPrice ! chunks;
                     srcAmt = toString (if sd = SELL then amount else quoteAmount);
                     destAmt = toString (if sd = SELL then quoteAmount else amount);
                     optimizedRate =
                       optimizeRate (pricingHelper sdk)
                         (unoptimizedRateOf sdk from to sd finalPrice srcAmt destAmt)
                 in Inr (unoptimizedRate.extend optimizedRate
                          (optimalRate.fields ''0'' ''0'' ''0'' method 0)))
              else Inl TypeError))"

subsection \<open>\<^verbatim>\<open>buildTransaction\<close>\<close>

text \<open>
  Modelled from the spec: the constant \<^verbatim>\<open>NULL_ADDRESS\<close> is imported from a module outside
  the sources; the payload carries "a null/zero partner address".
\<close>

definition NULL_ADDRESS :: Address where
  "NULL_ADDRESS = ''0x0000000000000000000000000000000000000000''"

text \<open>
  \<^verbatim>\<open>Number((Math.floor(Date.now() / 1000) + 10 * 60).toFixed())\<close>, with \<open>now\<close> the
  milliseconds \<^verbatim>\<open>Date.now()\<close> returns.
\<close>

definition initialDeadline :: "int \<Rightarrow> int" where
  "initialDeadline now = now div 1000 + 10 * 60"

text \<open>
  \<^verbatim>\<open>deadline = txInfo.deadline && Number(txInfo.deadline) < deadline
       ? Number(txInfo.deadline) : deadline\<close>
\<close>

definition reconcile :: "int \<Rightarrow> txInfo \<Rightarrow> int" where
  "reconcile dl info =
     (case txDeadline info of
        None \<Rightarrow> dl
      | Some d \<Rightarrow> if d \<noteq> 0 \<and> d < dl then d else dl)"

definition missingTokenLookup :: error where
  "missingTokenLookup = Error
     ''If you want to test preProcessTransaction, first need to implement getTokenFromAddress function''"

text \<open>
  The call \<^verbatim>\<open>dexLibExchange.preProcessTransaction(se, ..., {...})\<close> with the arguments the
  callback computes for it; \<open>preProcess\<close> and \<open>tokenOf\<close> are the two methods of the venue.
  The list \<^verbatim>\<open>DirectContractMethods\<close> is a constant of a module outside the sources and a
  parameter here.
\<close>

definition callPreProcess ::
  "LocalParaswapSDK \<Rightarrow> string list \<Rightarrow> optimalRate \<Rightarrow> int \<Rightarrow> Address \<Rightarrow> nat \<Rightarrow> optimalSwap
     \<Rightarrow> nat \<Rightarrow> optimalSwapExchange
     \<Rightarrow> (optimalSwapExchange \<Rightarrow> Token option \<Rightarrow> Token option \<Rightarrow> SwapSide \<Rightarrow> preProcessOptions
           \<Rightarrow> error + optimalSwapExchange \<times> txInfo)
     \<Rightarrow> (Address \<Rightarrow> Token option) \<Rightarrow> error + optimalSwapExchange \<times> txInfo" where
  "callPreProcess sdk DirectContractMethods rate minMax user routeIndex swap swapIndex se
       preProcess tokenOf =
     (let dex = getTxBuilderDexByKey (dexAdapterService sdk) (exchange se);
          rcp = getDexCallsParams (transactionBuilder sdk) rate routeIndex swap swapIndex se
                  (toString minMax) dex [];
          opts = \<lparr>slippageFactor =
                    \<lparr>dividend = toString minMax,
                     divisor = (if side rate = SELL then rateDestAmount rate
                                else rateSrcAmount rate)\<rparr>,
                  txOrigin = user,
                  executionContractAddress = [],
                  isDirectMethod = (contractMethod rate \<in> set DirectContractMethods),
                  optionsVersion = version rate,
                  recipient = rcp\<rparr>
      in preProcess se (tokenOf (srcToken swap)) (tokenOf (destToken swap)) (side rate) opts)"

text \<open>
  The callback applied to every swap exchange.  It returns the exchange to put in place of
  \<open>se\<close> and the value of the shared variable \<^verbatim>\<open>deadline\<close> after it has run.  Its two ways to
  fail differ in time.  Without the lookup method it throws before it first suspends.  A
  rejection of the venue's promise reaches it at the \<^verbatim>\<open>await\<close>, after it has suspended: this
  failure is marked \<open>Raced\<close>.
\<close>

definition preprocessExchange ::
  "LocalParaswapSDK \<Rightarrow> string list \<Rightarrow> optimalRate \<Rightarrow> int \<Rightarrow> Address \<Rightarrow> nat \<Rightarrow> optimalSwap
     \<Rightarrow> nat \<Rightarrow> int \<Rightarrow> optimalSwapExchange \<Rightarrow> error + optimalSwapExchange \<times> int" where
  "preprocessExchange sdk DirectContractMethods rate minMax user routeIndex swap swapIndex dl se =
     (case getDexByKey (pricingHelper sdk) (exchange se) of
        None \<Rightarrow> Inr (se, dl)
      | Some dexLibExchange \<Rightarrow>
          (case preProcessTransaction dexLibExchange of
             None \<Rightarrow> Inr (se, dl)
           | Some preProcess \<Rightarrow>
               (case getTokenFromAddress dexLibExchange of
                  None \<Rightarrow> Inl missingTokenLookup
                | Some tokenOf \<Rightarrow>
                    (case callPreProcess sdk DirectContractMethods rate minMax user routeIndex
                            swap swapIndex se preProcess tokenOf of
                       Inl e \<Rightarrow> Inl (Raced [e])
                     | Inr (preprocessedRoute, info) \<Rightarrow>
                         Inr (preprocessedRoute, reconcile dl info)))))"

text \<open>
  \<^verbatim>\<open>await Promise.all(xs.map(async (x, i) => ...))\<close> with callbacks that share a variable.
  All callbacks are started in array order, each runs until it first suspends, and the
  results keep their array positions.  The shared variable \<^verbatim>\<open>deadline\<close> is read and written
  in a single step that lowers it, so its final value does not depend on the order in which
  the callbacks resume; the model runs them in array order.

  One failure rejects the whole, and the failure that comes first in time is the one
  reported.  A callback that throws before it first suspends has rejected its promise by
  the time \<^verbatim>\<open>Promise.all\<close> subscribes to it; a callback that fails at an \<^verbatim>\<open>await\<close> rejects
  at least one turn of the job queue later; and the three nested \<^verbatim>\<open>Promise.all\<close> put every
  exchange at the same depth.  So a throw of the first kind (an \<open>Inl e\<close> with \<open>e\<close> not
  \<open>Raced\<close>) comes before every failure of the second kind, wherever the two are in the
  arrays, and of several throws of the first kind the first in array order comes first.
  Failures of the second kind (\<open>Raced es\<close>) are collected: which of them comes first is
  decided by the venues.
\<close>

fun mapIndexedE ::
  "(nat \<Rightarrow> 's \<Rightarrow> 'a \<Rightarrow> error + 'b \<times> 's) \<Rightarrow> nat \<Rightarrow> 'a list \<Rightarrow> 's \<Rightarrow> error + 'b list \<times> 's" where
  "mapIndexedE f i [] s = Inr ([], s)"
| "mapIndexedE f i (x # xs) s =
     (case f i s x of
        Inl (Raced es) \<Rightarrow>
          (case mapIndexedE f (Suc i) xs s of
             Inl (Raced es') \<Rightarrow> Inl (Raced (es @ es'))
           | Inl e \<Rightarrow> Inl e
           | Inr _ \<Rightarrow> Inl (Raced es))
      | Inl e \<Rightarrow> Inl e
      | Inr (y, s') \<Rightarrow>
          (case mapIndexedE f (Suc i) xs s' of
             Inl e \<Rightarrow> Inl e
           | Inr (ys, s'') \<Rightarrow> Inr (y # ys, s'')))"

definition preprocessSwap ::
  "LocalParaswapSDK \<Rightarrow> string list \<Rightarrow> optimalRate \<Rightarrow> int \<Rightarrow> Address \<Rightarrow> nat \<Rightarrow> nat \<Rightarrow> int
     \<Rightarrow> optimalSwap \<Rightarrow> error + optimalSwap \<times> int" where
  "preprocessSwap sdk DirectContractMethods rate minMax user routeIndex swapIndex dl swap =
     (case mapIndexedE
             (\<lambda>_ d se. preprocessExchange sdk DirectContractMethods rate minMax user
                          routeIndex swap swapIndex d se)
             0 (swapExchanges swap) dl of
        Inl e \<Rightarrow> Inl e
      | Inr (ses, dl') \<Rightarrow> Inr (swap\<lparr>swapExchanges := ses\<rparr>, dl'))"

definition preprocessRoute ::
  "LocalParaswapSDK \<Rightarrow> string list \<Rightarrow> optimalRate \<Rightarrow> int \<Rightarrow> Address \<Rightarrow> nat \<Rightarrow> int
     \<Rightarrow> optimalRoute \<Rightarrow> error + optimalRoute \<times> int" where
  "preprocessRoute sdk DirectContractMethods rate minMax user routeIndex dl route =
     (case mapIndexedE
             (\<lambda>swapIndex d swap. preprocessSwap sdk DirectContractMethods rate minMax user
                                    routeIndex swapIndex d swap)
             0 (swaps route) dl of
        Inl e \<Rightarrow> Inl e
      | Inr (sws, dl') \<Rightarrow> Inr (route\<lparr>swaps := sws\<rparr>, dl'))"

text \<open>
  The first part of \<^verbatim>\<open>buildTransaction\<close>: the preprocessed routes and the reconciled
  deadline.  \<open>now\<close> is what \<^verbatim>\<open>Date.now()\<close> returns.
\<close>

definition preprocessAll ::
  "LocalParaswapSDK \<Rightarrow> string list \<Rightarrow> int \<Rightarrow> optimalRate \<Rightarrow> int \<Rightarrow> Address
     \<Rightarrow> error + optimalRoute list \<times> int" where
  "preprocessAll sdk DirectContractMethods now rate minMax user =
     mapIndexedE
       (\<lambda>routeIndex d route. preprocessRoute sdk DirectContractMethods rate minMax user
                                routeIndex d route)
       0 (bestRoute rate) (initialDeadline now)"

text \<open>The payload \<^verbatim>\<open>buildTransaction\<close> hands to the transaction builder.\<close>

definition buildRequest ::
  "LocalParaswapSDK \<Rightarrow> string list \<Rightarrow> int \<Rightarrow> string \<Rightarrow> optimalRate \<Rightarrow> int \<Rightarrow> Address
     \<Rightarrow> error + buildParams" where
  "buildRequest sdk DirectContractMethods now requestId rate minMax user =
     (case preprocessAll sdk DirectContractMethods now rate minMax user of
        Inl e \<Rightarrow> Inl e
      | Inr (routes, dl) \<Rightarrow>
          Inr \<lparr>priceRoute = rate\<lparr>bestRoute := routes\<rparr>,
               minMaxAmount = toString minMax,
               userAddress = user,
               partnerAddress = NULL_ADDRESS,
               partnerFeePercent = ''0'',
               deadline = toString dl,
               uuid = requestId\<rparr>)"

text \<open>
  \<^verbatim>\<open>buildTransaction\<close>; \<open>requestId\<close> is what \<^verbatim>\<open>uuid()\<close> returns.
\<close>

definition buildTransaction ::
  "LocalParaswapSDK \<Rightarrow> string list \<Rightarrow> int \<Rightarrow> string \<Rightarrow> optimalRate \<Rightarrow> int \<Rightarrow> Address
     \<Rightarrow> error + opaque" where
  "buildTransaction sdk DirectContractMethods now requestId rate minMax user =
     bindE (buildRequest sdk DirectContractMethods now requestId rate minMax user)
           (build (transactionBuilder sdk))"

section \<open>Notions for the proofs, and examples\<close>

subsection \<open>Notions used to reason about the merger\<close>

text \<open>
  \<open>pendingOf\<close> is the value \<^verbatim>\<open>lastExchange\<close> has after the loop has produced the output \<open>ys\<close>:
  the index of the last hop if that hop is mergeable.  A hop list is \<open>settled\<close> when no two
  adjacent mergeable hops have matching boundary tokens (and the test does not throw on them).
\<close>

definition pendingOf :: "string list \<Rightarrow> optimalSwap list \<Rightarrow> nat option" where
  "pendingOf forks ys =
     (if ys \<noteq> [] \<and> \<not> notMergeable forks (last ys) then Some (length ys - 1) else None)"

fun settled :: "string list \<Rightarrow> optimalSwap list \<Rightarrow> bool" where
  "settled forks [] = True"
| "settled forks [x] = True"
| "settled forks (x # y # ys) =
     ((\<not> notMergeable forks x \<and> \<not> notMergeable forks y \<longrightarrow> boundaryMatches x y = Inr False)
      \<and> settled forks (y # ys))"


definition fixedRoute :: "'n float_ops \<Rightarrow> string list \<Rightarrow> optimalRoute \<Rightarrow> error + optimalRoute" where
  "fixedRoute fp forks r =
     (case fixRoute fp forks (swaps r) of Inl e \<Rightarrow> Inl e | Inr sw \<Rightarrow> Inr (r\<lparr>swaps := sw\<rparr>))"

definition srcSide :: "optimalSwap \<Rightarrow> Address \<times> int \<times> string list" where
  "srcSide h = (srcToken h, srcDecimals h, map srcAmount (swapExchanges h))"

definition destSide :: "optimalSwap \<Rightarrow> Address \<times> int \<times> string list" where
  "destSide h = (destToken h, destDecimals h, map destAmount (swapExchanges h))"

subsection \<open>Example values\<close>

text \<open>
  A stand-in for the floating-point operations that keeps the expression as text; it is used
  only to run the model on examples.
\<close>

definition exprFloat :: "string float_ops" where
  "exprFloat =
     \<lparr>parseFloat = (\<lambda>s. ''parseFloat('' @ s @ '')''),
      fadd = (\<lambda>a b. a @ '' + '' @ b),
      toFixed = (\<lambda>x d. ''('' @ x @ '').toFixed('' @ natToString d @ '')'')\<rparr>"

definition legOf :: "Address \<Rightarrow> Address \<Rightarrow> pathLeg" where
  "legOf a b = \<lparr>tokenIn = a, tokenOut = b, legParams = ''''\<rparr>"

definition curveExchange ::
  "pathLeg list \<Rightarrow> string \<Rightarrow> string \<Rightarrow> string \<Rightarrow> Address list \<Rightarrow> optimalSwapExchange" where
  "curveExchange legs g sa da pools =
     \<lparr>exchange = ''CurveV1Factory'', srcAmount = sa, destAmount = da, percent = 100,
      data = \<lparr>path = legs, gasUSD = g, otherData = ''''\<rparr>,
      poolAddresses = Some (map Some pools)\<rparr>"

definition curveHop :: "Address \<Rightarrow> Address \<Rightarrow> optimalSwapExchange \<Rightarrow> optimalSwap" where
  "curveHop a b e =
     \<lparr>srcToken = a, srcDecimals = 18, destToken = b, destDecimals = 6, swapExchanges = [e]\<rparr>"

definition exchangeAB :: optimalSwapExchange where
  "exchangeAB = curveExchange [legOf ''0xaa'' ''0xBB''] ''0.0012'' ''1000'' ''990'' [''0xp1'']"

definition exchangeBC :: optimalSwapExchange where
  "exchangeBC = curveExchange [legOf ''0xbb'' ''0xcc''] ''0.000034'' ''990'' ''985'' [''0xp2'']"

definition exchangeBD :: optimalSwapExchange where
  "exchangeBD = curveExchange [legOf ''0xbb'' ''0xcc'', legOf ''0xcc'' ''0xdd'']
       ''0.000034'' ''990'' ''980'' [''0xp2'', ''0xp3'']"


definition rateOf :: "ParaSwapVersion \<Rightarrow> optimalSwap list \<Rightarrow> unoptimizedRate" where
  "rateOf v hops =
     \<lparr>blockNumber = 1, network = 1, rateSrcToken = ''0xaa'', rateSrcDecimals = 18,
      rateSrcAmount = ''1000'', rateDestToken = ''0xcc'', rateDestDecimals = 6,
      rateDestAmount = ''985'',
      bestRoute = [\<lparr>routePercent = 100, swaps = hops\<rparr>],
      gasCostUSD = ''0'', gasCost = ''0'', others = [], version = v, side = SELL,
      tokenTransferProxy = ''0x01'', contractAddress = ''0x02''\<rparr>"

subsection \<open>Notions used to reason about the transaction assembly\<close>

text \<open>
  The venue-proposed deadlines of a run: \<open>proposal\<close> is the auxiliary info that the
  preprocessing of one swap exchange returns, if that exchange is preprocessed and the
  preprocessing succeeds; \<open>proposals\<close> collects them over all routes, swaps and exchanges.
  \<open>effective\<close> keeps the deadlines that are present and not zero.
\<close>

definition proposal ::
  "LocalParaswapSDK \<Rightarrow> string list \<Rightarrow> optimalRate \<Rightarrow> int \<Rightarrow> Address \<Rightarrow> nat \<Rightarrow> optimalSwap
     \<Rightarrow> nat \<Rightarrow> optimalSwapExchange \<Rightarrow> txInfo list" where
  "proposal sdk DirectContractMethods rate minMax user routeIndex swap swapIndex se =
     (case getDexByKey (pricingHelper sdk) (exchange se) of
        None \<Rightarrow> []
      | Some dexLibExchange \<Rightarrow>
          (case preProcessTransaction dexLibExchange of
             None \<Rightarrow> []
           | Some preProcess \<Rightarrow>
               (case getTokenFromAddress dexLibExchange of
                  None \<Rightarrow> []
                | Some tokenOf \<Rightarrow>
                    (case callPreProcess sdk DirectContractMethods rate minMax user routeIndex
                            swap swapIndex se preProcess tokenOf of
                       Inl e \<Rightarrow> []
                     | Inr (preprocessedRoute, info) \<Rightarrow> [info]))))"

definition proposalsOfSwap ::
  "LocalParaswapSDK \<Rightarrow> string list \<Rightarrow> optimalRate \<Rightarrow> int \<Rightarrow> Address \<Rightarrow> nat \<Rightarrow> nat \<Rightarrow> optimalSwap
     \<Rightarrow> txInfo list" where
  "proposalsOfSwap sdk DirectContractMethods rate minMax user routeIndex swapIndex swap =
     concat (map (proposal sdk DirectContractMethods rate minMax user routeIndex swap swapIndex)
               (swapExchanges swap))"

definition proposalsOfRoute ::
  "LocalParaswapSDK \<Rightarrow> string list \<Rightarrow> optimalRate \<Rightarrow> int \<Rightarrow> Address \<Rightarrow> nat \<Rightarrow> optimalRoute
     \<Rightarrow> txInfo list" where
  "proposalsOfRoute sdk DirectContractMethods rate minMax user routeIndex route =
     concat (map (\<lambda>(swapIndex, swap).
                    proposalsOfSwap sdk DirectContractMethods rate minMax user routeIndex
                      swapIndex swap)
               (enumerate 0 (swaps route)))"

definition proposals ::
  "LocalParaswapSDK \<Rightarrow> string list \<Rightarrow> optimalRate \<Rightarrow> int \<Rightarrow> Address \<Rightarrow> txInfo list" where
  "proposals sdk DirectContractMethods rate minMax user =
     concat (map (\<lambda>(routeIndex, route).
                    proposalsOfRoute sdk DirectContractMethods rate minMax user routeIndex route)
               (enumerate 0 (bestRoute rate)))"

definition effective :: "txInfo list \<Rightarrow> int list" where
  "effective infos = filter (\<lambda>d. d \<noteq> 0) (concat (map (\<lambda>info. case txDeadline info of None \<Rightarrow> [] | Some d \<Rightarrow> [d]) infos))"




subsection \<open>Example collaborators\<close>

text \<open>
  Venues for the examples: one that preprocesses and proposes the deadline \<open>d\<close>, one that has
  \<^verbatim>\<open>preProcessTransaction\<close> but no \<^verbatim>\<open>getTokenFromAddress\<close>, one without preprocessing, one
  whose preprocessing rejects, and one whose lookup resolves no token and whose preprocessing
  proposes the deadline \<open>1200\<close> when it is given no token.
\<close>

definition venueProposing :: "int option \<Rightarrow> dexLib" where
  "venueProposing d =
     \<lparr>preProcessTransaction = Some (\<lambda>se src dst sd opts. Inr (se, \<lparr>txDeadline = d\<rparr>)),
      getTokenFromAddress = Some (\<lambda>a. Some \<lparr>address = a, decimals = 18\<rparr>)\<rparr>"

definition venueWithoutLookup :: dexLib where
  "venueWithoutLookup =
     \<lparr>preProcessTransaction = Some (\<lambda>se src dst sd opts. Inr (se, \<lparr>txDeadline = None\<rparr>)),
      getTokenFromAddress = None\<rparr>"

definition venuePlain :: dexLib where
  "venuePlain = \<lparr>preProcessTransaction = None, getTokenFromAddress = None\<rparr>"

definition venueRejecting :: dexLib where
  "venueRejecting =
     \<lparr>preProcessTransaction = Some (\<lambda>se src dst sd opts. Inl (Rejected ''boom'')),
      getTokenFromAddress = Some (\<lambda>a. Some \<lparr>address = a, decimals = 18\<rparr>)\<rparr>"

definition venueGhost :: dexLib where
  "venueGhost =
     \<lparr>preProcessTransaction =
        Some (\<lambda>se src dst sd opts.
                Inr (se, \<lparr>txDeadline = (if src = None \<and> dst = None then Some 1200 else None)\<rparr>)),
      getTokenFromAddress = Some (\<lambda>a. None)\<rparr>"

definition exampleRegistry :: "string \<Rightarrow> dexLib option" where
  "exampleRegistry key =
     (if key = ''Early'' then Some (venueProposing (Some 1300))
      else if key = ''Zero'' then Some (venueProposing (Some 0))
      else if key = ''NoLookup'' then Some venueWithoutLookup
      else if key = ''Plain'' then Some venuePlain
      else if key = ''Reject'' then Some venueRejecting
      else if key = ''Ghost'' then Some venueGhost
      else None)"

text \<open>
  An SDK over that registry.  Its pricing collaborator quotes every sample amount at itself,
  and its transaction builder answers with the deadline it was given.
\<close>

definition exampleSDK :: LocalParaswapSDK where
  "exampleSDK =
     \<lparr>sdkNetwork = 1,
      dexKeys = [''CurveV1Factory''],
      dexHelper = \<lparr>getBlockNumber = 100, tokenTransferProxyAddress = ''0x01'',
                    augustusAddress = ''0x02''\<rparr>,
      dexAdapterService = \<lparr>getTxBuilderDexByKey = (\<lambda>key. key)\<rparr>,
      pricingHelper =
        \<lparr>getPoolIdentifiers = (\<lambda>src dst sd blockNo keys. []),
         getPoolPrices = (\<lambda>src dst samples sd blockNo keys ids fees.
            Some [\<lparr>prices = samples,
                   quoteData = \<lparr>path = [legOf (address src) (address dst)], gasUSD = ''0.0012'',
                                otherData = ''''\<rparr>,
                   quoteExchange = ''CurveV1Factory'',
                   quotePoolAddresses = Some [Some ''0xp1'']\<rparr>]),
         optimizeRate = (\<lambda>u. u),
         getDexByKey = exampleRegistry\<rparr>,
      transactionBuilder =
        \<lparr>getDexCallsParams = (\<lambda>rate routeIndex swap swapIndex se minMax dex ctr. ''0xrecipient''),
         build = (\<lambda>params. Inr (deadline params))\<rparr>\<rparr>"

definition exchangeOn :: "string \<Rightarrow> optimalSwapExchange" where
  "exchangeOn key =
     \<lparr>exchange = key, srcAmount = ''1000'', destAmount = ''990'', percent = 100,
      data = \<lparr>path = [], gasUSD = ''0'', otherData = ''''\<rparr>,
      poolAddresses = None\<rparr>"

definition priceRouteOf :: "optimalSwapExchange list \<Rightarrow> optimalRate" where
  "priceRouteOf ses =
     unoptimizedRate.extend
       (rateOf V6 [\<lparr>srcToken = ''0xaa'', srcDecimals = 18, destToken = ''0xBB'', destDecimals = 6,
                    swapExchanges = ses\<rparr>])
       (optimalRate.fields ''0'' ''0'' ''0'' ''multiSwap'' 0)"

section \<open>Properties of the route merger\<close>

subsection \<open>Loops\<close>

lemma forEach_append:
  "forEach f (xs @ ys) st = (case forEach f xs st of Inl e \<Rightarrow> Inl e | Inr st' \<Rightarrow> forEach f ys st')"
  by (induction xs arbitrary: st) (auto split: sum.splits)

lemma forEach_snoc:
  "forEach f (xs @ [x]) st = (case forEach f xs st of Inl e \<Rightarrow> Inl e | Inr st' \<Rightarrow> f st' x)"
  by (simp add: forEach_append split: sum.splits)

lemma settled_snoc:
  "settled forks (ys @ [y]) \<longleftrightarrow>
     settled forks ys \<and>
     (ys \<noteq> [] \<longrightarrow> \<not> notMergeable forks (last ys) \<longrightarrow> \<not> notMergeable forks y \<longrightarrow>
        boundaryMatches (last ys) y = Inr False)"
  by (induction forks ys rule: settled.induct) auto

lemma fuse_notMergeable:
  "fuse fp l s = Inr l' \<Longrightarrow> notMergeable forks l' = notMergeable forks l"
  by (auto simp: fuse_def notMergeable_def split: list.splits option.splits)

lemma fuse_boundary_right:
  "fuse fp l s = Inr l' \<Longrightarrow> boundaryMatches l s = Inr b \<Longrightarrow> boundaryMatches p l' = boundaryMatches p l"
  by (auto simp: fuse_def boundaryMatches_def split: list.splits option.splits)

lemma pendingOf_nth:
  "pendingOf forks ys = Some i \<Longrightarrow> ys \<noteq> [] \<and> i = length ys - 1 \<and> ys ! i = last ys \<and> \<not> notMergeable forks (last ys)"
  by (auto simp: pendingOf_def last_conv_nth split: if_splits)

lemma nth_last_Suc0: "ys \<noteq> [] \<Longrightarrow> ys ! (length ys - Suc 0) = last ys"
  by (simp add: last_conv_nth)

lemma list_update_last: "ys \<noteq> [] \<Longrightarrow> ys[length ys - 1 := v] = butlast ys @ [v]"
  by (induction ys rule: rev_induct) auto

lemma step_inv:
  assumes "settled forks (optimizedRate st)" and "lastExchange st = pendingOf forks (optimizedRate st)"
    and "fixRoute_step fp forks st x = Inr st'"
  shows "settled forks (optimizedRate st') \<and> lastExchange st' = pendingOf forks (optimizedRate st')"
proof (cases "notMergeable forks x")
  case True
  with assms show ?thesis
    by (auto simp: fixRoute_step_def settled_snoc pendingOf_def)
next
  case False
  note el = this
  show ?thesis
  proof (cases "lastExchange st")
    case None
    with assms el show ?thesis
      by (auto simp: fixRoute_step_def startCandidate_def settled_snoc pendingOf_def split: if_splits)
  next
    case (Some i)
    with assms(2) have p: "optimizedRate st \<noteq> []" "i = length (optimizedRate st) - 1"
      "optimizedRate st ! i = last (optimizedRate st)" "\<not> notMergeable forks (last (optimizedRate st))"
      using pendingOf_nth[of forks "optimizedRate st" i] by auto
    from assms(3) el Some p(3) obtain b where b: "boundaryMatches (last (optimizedRate st)) x = Inr b"
      by (cases "boundaryMatches (last (optimizedRate st)) x") (auto simp: fixRoute_step_def)
    show ?thesis
    proof (cases b)
      case False
      with assms el Some b p show ?thesis
        by (auto simp: fixRoute_step_def startCandidate_def settled_snoc pendingOf_def)
    next
      case True
      with assms(3) el Some b p(3) have
        "(case fuse fp (last (optimizedRate st)) x of Inl e \<Rightarrow> Inl e
          | Inr l' \<Rightarrow> Inr (st\<lparr>optimizedRate := (optimizedRate st)[i := l']\<rparr>)) = Inr st'"
        by (simp add: fixRoute_step_def)
      then obtain l' where l': "fuse fp (last (optimizedRate st)) x = Inr l'"
        and st': "st' = st\<lparr>optimizedRate := butlast (optimizedRate st) @ [l']\<rparr>"
        using list_update_last[OF p(1)] p(2)
        by (cases "fuse fp (last (optimizedRate st)) x") auto
      have e: "\<not> notMergeable forks l'" using fuse_notMergeable[OF l'] p by simp
      have bm: "\<And>q. boundaryMatches q l' = boundaryMatches q (last (optimizedRate st))"
        using fuse_boundary_right[OF l' b] by simp
      from assms(1) p(1) have "settled forks (butlast (optimizedRate st) @ [last (optimizedRate st)])"
        by simp
      then have "settled forks (butlast (optimizedRate st) @ [l'])"
        unfolding settled_snoc using e bm p(4) by auto
      moreover have "lastExchange st' = pendingOf forks (optimizedRate st')"
        using st' Some p e by (simp add: pendingOf_def)
      ultimately show ?thesis using st' by simp
    qed
  qed
qed

lemma run_inv:
  "forEach (fixRoute_step fp forks) xs \<lparr>lastExchange = None, optimizedRate = []\<rparr> = Inr st \<Longrightarrow>
     settled forks (optimizedRate st) \<and> lastExchange st = pendingOf forks (optimizedRate st)"
proof (induction xs arbitrary: st rule: rev_induct)
  case Nil
  then show ?case by (auto simp: pendingOf_def)
next
  case (snoc x xs)
  then obtain st0 where a: "forEach (fixRoute_step fp forks) xs \<lparr>lastExchange = None, optimizedRate = []\<rparr> = Inr st0"
    and b: "fixRoute_step fp forks st0 x = Inr st"
    by (auto simp: forEach_snoc split: sum.splits)
  from snoc.IH[OF a] b show ?case using step_inv by blast
qed

lemma settled_run:
  "settled forks ys \<Longrightarrow>
   forEach (fixRoute_step fp forks) ys \<lparr>lastExchange = None, optimizedRate = []\<rparr>
     = Inr \<lparr>lastExchange = pendingOf forks ys, optimizedRate = ys\<rparr>"
proof (induction ys rule: rev_induct)
  case Nil
  then show ?case by (simp add: pendingOf_def)
next
  case (snoc y ys)
  then have s: "settled forks ys" and
    bm: "ys \<noteq> [] \<Longrightarrow> \<not> notMergeable forks (last ys) \<Longrightarrow> \<not> notMergeable forks y \<Longrightarrow>
        boundaryMatches (last ys) y = Inr False"
    by (auto simp: settled_snoc)
  show ?case
  proof (cases "notMergeable forks y")
    case True
    then show ?thesis using snoc.IH[OF s]
      by (simp add: forEach_snoc fixRoute_step_def pendingOf_def)
  next
    case False
    show ?thesis
    proof (cases "pendingOf forks ys")
      case None
      then show ?thesis using snoc.IH[OF s] False
        by (simp add: forEach_snoc fixRoute_step_def startCandidate_def pendingOf_def)
    next
      case (Some i)
      from pendingOf_nth[OF Some] bm False have "boundaryMatches (ys ! i) y = Inr False" by auto
      moreover have "pendingOf forks (ys @ [y]) = Some (length ys)"
        using False by (simp add: pendingOf_def)
      ultimately show ?thesis using snoc.IH[OF s] False Some
        by (simp add: forEach_snoc fixRoute_step_def startCandidate_def)
    qed
  qed
qed

lemma fixRoute_fixed:
  "fixRoute fp forks xs = Inr ys \<Longrightarrow> fixRoute fp forks ys = Inr ys"
proof -
  assume "fixRoute fp forks xs = Inr ys"
  then obtain st where
    "forEach (fixRoute_step fp forks) xs \<lparr>lastExchange = None, optimizedRate = []\<rparr> = Inr st"
    and "ys = optimizedRate st"
    by (auto simp: fixRoute_def split: sum.splits)
  with run_inv[of fp forks xs st] have "settled forks ys" by simp
  then show ?thesis by (simp add: fixRoute_def settled_run)
qed


lemma mapE_fixed:
  assumes "\<And>x y. f x = Inr y \<Longrightarrow> f y = Inr y"
  shows "mapE f xs = Inr ys \<Longrightarrow> mapE f ys = Inr ys"
proof (induction xs arbitrary: ys)
  case Nil
  then show ?case by simp
next
  case (Cons x xs)
  then obtain y ys' where "f x = Inr y" "mapE f xs = Inr ys'" "ys = y # ys'"
    by (auto split: sum.splits)
  with Cons.IH[of ys'] assms[of x y] show ?case by simp
qed

lemma mapE_nth:
  "mapE f xs = Inr ys \<Longrightarrow> length ys = length xs \<and> (\<forall>i<length xs. f (xs ! i) = Inr (ys ! i))"
proof (induction xs arbitrary: ys)
  case Nil
  then show ?case by simp
next
  case (Cons x xs)
  then obtain y ys' where a: "f x = Inr y" "mapE f xs = Inr ys'" "ys = y # ys'"
    by (auto split: sum.splits)
  from Cons.IH[OF a(2)] a show ?case by (auto simp: nth_Cons split: nat.splits)
qed

lemma step_length:
  "fixRoute_step fp forks st x = Inr st' \<Longrightarrow>
     length (optimizedRate st') \<le> length (optimizedRate st) + 1 \<and>
     (length (optimizedRate st') = length (optimizedRate st) + 1 \<longrightarrow>
        optimizedRate st' = optimizedRate st @ [x])"
  by (auto simp: fixRoute_step_def startCandidate_def split: if_splits option.splits sum.splits bool.splits)

lemma forEach_length:
  "forEach (fixRoute_step fp forks) xs st = Inr st' \<Longrightarrow>
     length (optimizedRate st') \<le> length (optimizedRate st) + length xs \<and>
     (length (optimizedRate st') = length (optimizedRate st) + length xs \<longrightarrow>
        optimizedRate st' = optimizedRate st @ xs)"
proof (induction xs arbitrary: st)
  case Nil
  then show ?case by simp
next
  case (Cons x xs)
  then obtain st1 where a: "fixRoute_step fp forks st x = Inr st1"
    and b: "forEach (fixRoute_step fp forks) xs st1 = Inr st'"
    by (auto split: sum.splits)
  from step_length[OF a] Cons.IH[OF b] show ?case by auto
qed

lemma fixRoute_length:
  "fixRoute fp forks xs = Inr ys \<Longrightarrow> length ys \<le> length xs \<and> (length ys = length xs \<longrightarrow> ys = xs)"
proof -
  assume "fixRoute fp forks xs = Inr ys"
  then obtain st where
    "forEach (fixRoute_step fp forks) xs \<lparr>lastExchange = None, optimizedRate = []\<rparr> = Inr st"
    and "ys = optimizedRate st"
    by (auto simp: fixRoute_def split: sum.splits)
  with forEach_length[of fp forks xs "\<lparr>lastExchange = None, optimizedRate = []\<rparr>" st]
  show ?thesis by simp
qed

subsection \<open>Hops that close a run\<close>











lemma curveV1Merge_fixedRoute:
  "curveV1Merge fp forks rate =
     (if version rate \<noteq> V6 then Inr rate
      else (case mapE (fixedRoute fp forks) (bestRoute rate) of
              Inl e \<Rightarrow> Inl e
            | Inr rs \<Rightarrow> Inr (rate\<lparr>bestRoute := rs\<rparr>)))"
  by (simp add: curveV1Merge_def fixedRoute_def [abs_def])

subsection \<open>The two ends of a route\<close>

lemma fuse_srcSide: "fuse fp l s = Inr l' \<Longrightarrow> srcSide l' = srcSide l"
  by (auto simp: fuse_def srcSide_def split: list.splits option.splits)

lemma fuse_destSide:
  "fuse fp l s = Inr l' \<Longrightarrow> \<not> notMergeable forks l \<Longrightarrow> \<not> notMergeable forks s \<Longrightarrow>
     destSide l' = destSide s"
  by (auto simp: fuse_def destSide_def notMergeable_def split: list.splits option.splits)

lemma hd_list_update: "hd (xs[i := v]) = (if i = 0 \<and> xs \<noteq> [] then v else hd xs)"
  by (cases xs; cases i) auto

lemma step_hd:
  assumes "fixRoute_step fp forks st x = Inr st'" and "optimizedRate st \<noteq> []"
  shows "optimizedRate st' \<noteq> [] \<and> srcSide (hd (optimizedRate st')) = srcSide (hd (optimizedRate st))"
proof (cases "length (optimizedRate st') = length (optimizedRate st) + 1")
  case True
  with step_length[OF assms(1)] assms(2) show ?thesis by auto
next
  case False
  with assms(1) obtain i l' where i: "lastExchange st = Some i"
    and f: "fuse fp (optimizedRate st ! i) x = Inr l'"
    and o: "optimizedRate st' = (optimizedRate st)[i := l']"
    by (auto simp: fixRoute_step_def startCandidate_def
        split: if_splits option.splits sum.splits bool.splits)
  from fuse_srcSide[OF f] assms(2) o show ?thesis
    by (cases "optimizedRate st"; cases i) auto
qed

lemma forEach_hd:
  "forEach (fixRoute_step fp forks) xs st = Inr st' \<Longrightarrow> optimizedRate st \<noteq> [] \<Longrightarrow>
     optimizedRate st' \<noteq> [] \<and> srcSide (hd (optimizedRate st')) = srcSide (hd (optimizedRate st))"
proof (induction xs arbitrary: st)
  case Nil
  then show ?case by simp
next
  case (Cons x xs)
  then obtain st1 where a: "fixRoute_step fp forks st x = Inr st1"
    and b: "forEach (fixRoute_step fp forks) xs st1 = Inr st'"
    by (auto split: sum.splits)
  from step_hd[OF a Cons.prems(2)] Cons.IH[OF b] show ?case by simp
qed

lemma fixRoute_hd:
  assumes "fixRoute fp forks (x # xs) = Inr ys"
  shows "ys \<noteq> [] \<and> srcSide (hd ys) = srcSide x"
proof -
  from assms obtain st where
    st: "forEach (fixRoute_step fp forks) (x # xs) \<lparr>lastExchange = None, optimizedRate = []\<rparr> = Inr st"
    and o: "ys = optimizedRate st"
    by (auto simp: fixRoute_def split: sum.splits)
  then obtain st1 where a: "fixRoute_step fp forks \<lparr>lastExchange = None, optimizedRate = []\<rparr> x = Inr st1"
    and b: "forEach (fixRoute_step fp forks) xs st1 = Inr st"
    by (auto split: sum.splits)
  from a have "optimizedRate st1 = [x]"
    by (auto simp: fixRoute_step_def startCandidate_def split: if_splits)
  with forEach_hd[OF b] o show ?thesis by simp
qed

lemma fixRoute_last:
  assumes "fixRoute fp forks (xs @ [x]) = Inr ys"
  shows "ys \<noteq> [] \<and> destSide (last ys) = destSide x"
proof -
  from assms obtain st0 st where
    st0: "forEach (fixRoute_step fp forks) xs \<lparr>lastExchange = None, optimizedRate = []\<rparr> = Inr st0"
    and s: "fixRoute_step fp forks st0 x = Inr st" and o: "ys = optimizedRate st"
    by (auto simp: fixRoute_def forEach_snoc split: sum.splits)
  show ?thesis
  proof (cases "length (optimizedRate st) = length (optimizedRate st0) + 1")
    case True
    with step_length[OF s] o show ?thesis by auto
  next
    case False
    with s obtain i l' where i: "lastExchange st0 = Some i"
      and n: "\<not> notMergeable forks x"
      and f: "fuse fp (optimizedRate st0 ! i) x = Inr l'"
      and u: "optimizedRate st = (optimizedRate st0)[i := l']"
      by (auto simp: fixRoute_step_def startCandidate_def
          split: if_splits option.splits sum.splits bool.splits)
    from run_inv[OF st0] i have "pendingOf forks (optimizedRate st0) = Some i" by simp
    from pendingOf_nth[OF this] have p: "optimizedRate st0 \<noteq> []" "i = length (optimizedRate st0) - 1"
      "optimizedRate st0 ! i = last (optimizedRate st0)"
      "\<not> notMergeable forks (last (optimizedRate st0))" by auto
    from fuse_destSide[OF f _ n] p have "destSide l' = destSide x" by simp
    moreover from u p have "optimizedRate st = butlast (optimizedRate st0) @ [l']"
      using list_update_last[OF p(1)] by simp
    ultimately show ?thesis using o by simp
  qed
qed

lemma fixRoute_Nil: "fixRoute fp forks [] = Inr []"
  by (simp add: fixRoute_def)

lemma fixRoute_ends:
  assumes "fixRoute fp forks xs = Inr ys"
  shows "(ys = [] \<longleftrightarrow> xs = []) \<and>
         (xs \<noteq> [] \<longrightarrow> srcSide (hd ys) = srcSide (hd xs) \<and> destSide (last ys) = destSide (last xs))"
proof (cases xs)
  case Nil
  with assms show ?thesis by (simp add: fixRoute_Nil)
next
  case (Cons x xs')
  with fixRoute_hd[of fp forks x xs' ys] assms have h: "ys \<noteq> []" "srcSide (hd ys) = srcSide (hd xs)"
    by auto
  from Cons have "xs = butlast xs @ [last xs]" by simp
  with fixRoute_last[of fp forks "butlast xs" "last xs" ys] assms
  have "destSide (last ys) = destSide (last xs)" by simp
  with h Cons show ?thesis by simp
qed

subsection \<open>Evaluation of the examples\<close>


lemma natToString_6: "natToString 6 = ''6''"
  by code_simp

lemma toLowerCase_CurveV1Factory: "toLowerCase ''CurveV1Factory'' = ''curvev1factory''"
  by code_simp

subsection \<open>Version gate\<close>

text \<open>
  Claim C4.  A rate whose version is not V6 is returned as it is: the merger is the identity
  on it.
\<close>

theorem curveV1Merge_identity_unless_V6:
  "version rate \<noteq> V6 \<Longrightarrow> curveV1Merge fp CurveV1FactoryForks rate = Inr rate"
  by (simp add: curveV1Merge_def)

theorem curveV1Merge_identity_unless_V6_witness:
  "version (rateOf V5 [curveHop ''0xaa'' ''0xBB'' exchangeAB, curveHop ''0xbb'' ''0xcc'' exchangeBC])
     \<noteq> V6 \<and>
   curveV1Merge exprFloat [''curvev1factory'']
     (rateOf V5 [curveHop ''0xaa'' ''0xBB'' exchangeAB, curveHop ''0xbb'' ''0xcc'' exchangeBC])
   = Inr (rateOf V5 [curveHop ''0xaa'' ''0xBB'' exchangeAB, curveHop ''0xbb'' ''0xcc'' exchangeBC])"
  using curveV1Merge_identity_unless_V6 [of
      "rateOf V5 [curveHop ''0xaa'' ''0xBB'' exchangeAB, curveHop ''0xbb'' ''0xcc'' exchangeBC]"
      exprFloat "[''curvev1factory'']"]
  by (simp add: rateOf_def)

subsection \<open>Idempotence\<close>

text \<open>
  Claim C2.  The merger is idempotent: running it on its own result gives that result again,
  and when the first run throws there is no second run.
\<close>

theorem curveV1Merge_idempotent:
  "(case curveV1Merge fp forks rate of Inl e \<Rightarrow> Inl e | Inr rate' \<Rightarrow> curveV1Merge fp forks rate')
     = curveV1Merge fp forks rate"
proof (cases "version rate = V6")
  case False
  then show ?thesis by (simp add: curveV1Merge_def)
next
  case True
  let ?f = "\<lambda>r. case fixRoute fp forks (swaps r) of Inl e \<Rightarrow> Inl e
                             | Inr sw \<Rightarrow> Inr (r\<lparr>swaps := sw\<rparr>)"
  have f: "\<And>x y. ?f x = Inr y \<Longrightarrow> ?f y = Inr y"
    by (auto split: sum.splits dest: fixRoute_fixed)
  show ?thesis
  proof (cases "mapE ?f (bestRoute rate)")
    case (Inl e)
    with True show ?thesis by (simp add: curveV1Merge_def)
  next
    case (Inr rs)
    from mapE_fixed[of ?f, OF f Inr] have "mapE ?f rs = Inr rs" .
    with True Inr show ?thesis by (simp add: curveV1Merge_def)
  qed
qed

subsection \<open>Two adjacent hops\<close>

lemma fixRoute_pair:
  assumes "swapExchanges h1 = [e1]" and "swapExchanges h2 = [e2]"
    and "toLowerCase (exchange e1) \<in> set CurveV1FactoryForks"
    and "toLowerCase (exchange e2) \<in> set CurveV1FactoryForks"
    and "path (data e1) = ps @ [p]" and "path (data e2) = q # qs"
    and "toLowerCase (tokenOut p) = toLowerCase (tokenIn q)"
    and "poolAddresses e1 = Some a1" and "poolAddresses e2 = Some a2"
  shows "fixRoute fp CurveV1FactoryForks [h1, h2] =
     Inr [h1\<lparr>destToken := destToken h2,
              destDecimals := destDecimals h2,
              swapExchanges :=
                [e1\<lparr>data := (data e1)
                       \<lparr>path := ps @ [p, q],
                        gasUSD := toFixed fp
                          (fadd fp (parseFloat fp (gasUSD (data e1)))
                                   (parseFloat fp (gasUSD (data e2)))) 6\<rparr>,
                    poolAddresses := Some (a1 @ [at0 a2]),
                    destAmount := destAmount e2\<rparr>]\<rparr>]"
proof -
  have n1: "\<not> notMergeable CurveV1FactoryForks h1" and n2: "\<not> notMergeable CurveV1FactoryForks h2"
    using assms by (simp_all add: notMergeable_def)
  have bm: "boundaryMatches h1 h2 = Inr True"
    using assms by (cases ps) (simp_all add: boundaryMatches_def)
  have fu: "fuse fp h1 h2 = Inr (h1\<lparr>destToken := destToken h2,
              destDecimals := destDecimals h2,
              swapExchanges :=
                [e1\<lparr>data := (data e1)
                       \<lparr>path := ps @ [p, q],
                        gasUSD := toFixed fp
                          (fadd fp (parseFloat fp (gasUSD (data e1)))
                                   (parseFloat fp (gasUSD (data e2)))) 6\<rparr>,
                    poolAddresses := Some (a1 @ [at0 a2]),
                    destAmount := destAmount e2\<rparr>]\<rparr>)"
    using assms by (simp add: fuse_def)
  show ?thesis
    using n1 n2 bm fu by (simp add: fixRoute_def fixRoute_step_def startCandidate_def)
qed

lemma curveV1Merge_single_route:
  "version rate = V6 \<Longrightarrow> bestRoute rate = [r] \<Longrightarrow> fixRoute fp forks (swaps r) = Inr sw \<Longrightarrow>
     curveV1Merge fp forks rate = Inr (rate\<lparr>bestRoute := [r\<lparr>swaps := sw\<rparr>]\<rparr>)"
  by (simp add: curveV1Merge_def)

lemma example_pair_AB_BC:
  "fixRoute exprFloat [''curvev1factory'']
     [curveHop ''0xaa'' ''0xBB'' exchangeAB, curveHop ''0xbb'' ''0xcc'' exchangeBC] =
   Inr [curveHop ''0xaa'' ''0xcc''
     (curveExchange [legOf ''0xaa'' ''0xBB'', legOf ''0xbb'' ''0xcc'']
        ''(parseFloat(0.0012) + parseFloat(0.000034)).toFixed(6)'' ''1000'' ''985''
        [''0xp1'', ''0xp2''])]"
proof -
  have l: "toLowerCase ''0xBB'' = toLowerCase ''0xbb''" by code_simp
  show ?thesis
    using fixRoute_pair [of "curveHop ''0xaa'' ''0xBB'' exchangeAB" exchangeAB
      "curveHop ''0xbb'' ''0xcc'' exchangeBC" exchangeBC "[''curvev1factory'']"
      "[]" "legOf ''0xaa'' ''0xBB''" "legOf ''0xbb'' ''0xcc''" "[]" "[Some ''0xp1'']" "[Some ''0xp2'']"
      exprFloat] l
    by (simp add: curveHop_def exchangeAB_def exchangeBC_def curveExchange_def legOf_def
        toLowerCase_CurveV1Factory exprFloat_def at0_def natToString_6)
qed


lemma example_merge_AB_BC:
  "curveV1Merge exprFloat [''curvev1factory'']
     (rateOf V6 [curveHop ''0xaa'' ''0xBB'' exchangeAB, curveHop ''0xbb'' ''0xcc'' exchangeBC]) =
   Inr (rateOf V6 [curveHop ''0xaa'' ''0xcc''
     (curveExchange [legOf ''0xaa'' ''0xBB'', legOf ''0xbb'' ''0xcc'']
        ''(parseFloat(0.0012) + parseFloat(0.000034)).toFixed(6)'' ''1000'' ''985''
        [''0xp1'', ''0xp2''])])"
  using curveV1Merge_single_route [of
      "rateOf V6 [curveHop ''0xaa'' ''0xBB'' exchangeAB, curveHop ''0xbb'' ''0xcc'' exchangeBC]"
      "\<lparr>routePercent = 100,
        swaps = [curveHop ''0xaa'' ''0xBB'' exchangeAB, curveHop ''0xbb'' ''0xcc'' exchangeBC]\<rparr>"
      exprFloat "[''curvev1factory'']"] example_pair_AB_BC
  by (simp add: rateOf_def)




subsection \<open>What a fusion appends\<close>

text \<open>
  Claim C9.  When the loop fuses a mergeable hop \<open>s\<close> into the pending candidate (the object
  at index \<open>i\<close>), the candidate's path grows by exactly the first leg of the path of \<open>s\<close>, and
  its pool addresses grow by exactly \<^verbatim>\<open>poolAddresses[0]\<close> of \<open>s\<close>; the further legs \<open>qs\<close> and
  the further pool addresses do not occur in the result.  No hop is added to the output.
\<close>

theorem fixRoute_step_absorbs_first_only:
  assumes "lastExchange st = Some i" and "i < length (optimizedRate st)"
    and "swapExchanges (optimizedRate st ! i) = le # lrest"
    and "\<not> notMergeable CurveV1FactoryForks s"
    and "swapExchanges s = [se]"
    and "boundaryMatches (optimizedRate st ! i) s = Inr True"
    and "path (data se) = q # qs"
    and "poolAddresses le = Some lpa" and "poolAddresses se = Some spa"
  shows "\<exists>st' le'. fixRoute_step fp CurveV1FactoryForks st s = Inr st' \<and>
           lastExchange st' = Some i \<and>
           length (optimizedRate st') = length (optimizedRate st) \<and>
           (\<forall>j < length (optimizedRate st). j \<noteq> i \<longrightarrow> optimizedRate st' ! j = optimizedRate st ! j) \<and>
           swapExchanges (optimizedRate st' ! i) = le' # lrest \<and>
           path (data le') = path (data le) @ [q] \<and>
           poolAddresses le' = Some (lpa @ [at0 spa]) \<and>
           (\<forall>a as. spa = a # as \<longrightarrow> poolAddresses le' = Some (lpa @ [a]))"
  using assms
  by (auto simp: fixRoute_step_def fuse_def at0_def)

theorem fixRoute_step_absorbs_first_only_witness:
  "lastExchange \<lparr>lastExchange = Some 0, optimizedRate = [curveHop ''0xaa'' ''0xBB'' exchangeAB]\<rparr> = Some 0 \<and>
   \<not> notMergeable [''curvev1factory''] (curveHop ''0xbb'' ''0xdd'' exchangeBD) \<and>
   boundaryMatches (curveHop ''0xaa'' ''0xBB'' exchangeAB) (curveHop ''0xbb'' ''0xdd'' exchangeBD) = Inr True \<and>
   path (data exchangeBD) = legOf ''0xbb'' ''0xcc'' # [legOf ''0xcc'' ''0xdd''] \<and>
   poolAddresses exchangeBD = Some [Some ''0xp2'', Some ''0xp3''] \<and>
   (\<exists>st' le'.
      fixRoute_step exprFloat [''curvev1factory'']
        \<lparr>lastExchange = Some 0, optimizedRate = [curveHop ''0xaa'' ''0xBB'' exchangeAB]\<rparr>
        (curveHop ''0xbb'' ''0xdd'' exchangeBD) = Inr st' \<and>
      length (optimizedRate st') = 1 \<and>
      swapExchanges (optimizedRate st' ! 0) = [le'] \<and>
      path (data le') = [legOf ''0xaa'' ''0xBB'', legOf ''0xbb'' ''0xcc''] \<and>
      poolAddresses le' = Some [Some ''0xp1'', Some ''0xp2''])"
proof -
  have l: "toLowerCase ''0xBB'' = toLowerCase ''0xbb''" by code_simp
  have h: "\<not> notMergeable [''curvev1factory''] (curveHop ''0xbb'' ''0xdd'' exchangeBD)"
    by (simp add: notMergeable_def curveHop_def exchangeBD_def curveExchange_def
        toLowerCase_CurveV1Factory)
  have b: "boundaryMatches (curveHop ''0xaa'' ''0xBB'' exchangeAB) (curveHop ''0xbb'' ''0xdd'' exchangeBD) = Inr True"
    using l by (simp add: boundaryMatches_def curveHop_def exchangeAB_def exchangeBD_def
        curveExchange_def legOf_def)
  have p: "path (data exchangeBD) = legOf ''0xbb'' ''0xcc'' # [legOf ''0xcc'' ''0xdd'']"
    "poolAddresses exchangeBD = Some [Some ''0xp2'', Some ''0xp3'']"
    "path (data exchangeAB) = [legOf ''0xaa'' ''0xBB'']"
    "poolAddresses exchangeAB = Some [Some ''0xp1'']"
    by (simp_all add: exchangeBD_def exchangeAB_def curveExchange_def)
  from fixRoute_step_absorbs_first_only [of
      "\<lparr>lastExchange = Some 0, optimizedRate = [curveHop ''0xaa'' ''0xBB'' exchangeAB]\<rparr>" 0
      exchangeAB "[]" "[''curvev1factory'']" "curveHop ''0xbb'' ''0xdd'' exchangeBD" exchangeBD
      "legOf ''0xbb'' ''0xcc''" "[legOf ''0xcc'' ''0xdd'']" "[Some ''0xp1'']"
      "[Some ''0xp2'', Some ''0xp3'']" exprFloat] h b p
  obtain st' le' where
    "fixRoute_step exprFloat [''curvev1factory'']
        \<lparr>lastExchange = Some 0, optimizedRate = [curveHop ''0xaa'' ''0xBB'' exchangeAB]\<rparr>
        (curveHop ''0xbb'' ''0xdd'' exchangeBD) = Inr st'"
    "length (optimizedRate st') = 1"
    "swapExchanges (optimizedRate st' ! 0) = [le']"
    "path (data le') = [legOf ''0xaa'' ''0xBB'', legOf ''0xbb'' ''0xcc'']"
    "poolAddresses le' = Some [Some ''0xp1'', Some ''0xp2'']"
    by (auto simp: curveHop_def at0_def)
  with h b p show ?thesis by auto
qed

subsection \<open>What the merger leaves alone\<close>

text \<open>
  Claim C3.  When the merger returns, the result differs from the input in the field
  \<^verbatim>\<open>bestRoute\<close> at most: source and destination amounts and every other top-level field are
  the same.  There are as many routes as before, each route differs from the input route in
  its hops at most (so its percent is the same), no route has more hops than before, and a
  route with as many hops as before has the same hops.  A route keeps what enters and what
  leaves it: the source side of its first hop and the destination side of its last hop.
\<close>

theorem curveV1Merge_frame:
  assumes "curveV1Merge fp CurveV1FactoryForks rate = Inr rate'"
  shows "rate' = rate\<lparr>bestRoute := bestRoute rate'\<rparr> \<and>
         rateSrcAmount rate' = rateSrcAmount rate \<and>
         rateDestAmount rate' = rateDestAmount rate \<and>
         length (bestRoute rate') = length (bestRoute rate) \<and>
         (\<forall>i < length (bestRoute rate).
            bestRoute rate' ! i = (bestRoute rate ! i)\<lparr>swaps := swaps (bestRoute rate' ! i)\<rparr> \<and>
            routePercent (bestRoute rate' ! i) = routePercent (bestRoute rate ! i) \<and>
            length (swaps (bestRoute rate' ! i)) \<le> length (swaps (bestRoute rate ! i)) \<and>
            (length (swaps (bestRoute rate' ! i)) = length (swaps (bestRoute rate ! i)) \<longrightarrow>
               swaps (bestRoute rate' ! i) = swaps (bestRoute rate ! i)) \<and>
            (swaps (bestRoute rate' ! i) = [] \<longleftrightarrow> swaps (bestRoute rate ! i) = []) \<and>
            (swaps (bestRoute rate ! i) \<noteq> [] \<longrightarrow>
               srcSide (hd (swaps (bestRoute rate' ! i))) = srcSide (hd (swaps (bestRoute rate ! i))) \<and>
               destSide (last (swaps (bestRoute rate' ! i))) =
                 destSide (last (swaps (bestRoute rate ! i)))))"
proof (cases "version rate = V6")
  case False
  with assms have "rate' = rate" by (simp add: curveV1Merge_def)
  then show ?thesis by simp
next
  case True
  from assms True obtain rs where rs: "mapE (fixedRoute fp CurveV1FactoryForks) (bestRoute rate) = Inr rs"
    and r': "rate' = rate\<lparr>bestRoute := rs\<rparr>"
    by (auto simp: curveV1Merge_fixedRoute split: sum.splits)
  from mapE_nth[OF rs] have len: "length rs = length (bestRoute rate)"
    and nth: "\<And>i. i < length (bestRoute rate) \<Longrightarrow>
                fixedRoute fp CurveV1FactoryForks (bestRoute rate ! i) = Inr (rs ! i)"
    by auto
  have "rs ! i = (bestRoute rate ! i)\<lparr>swaps := swaps (rs ! i)\<rparr> \<and>
            routePercent (rs ! i) = routePercent (bestRoute rate ! i) \<and>
            length (swaps (rs ! i)) \<le> length (swaps (bestRoute rate ! i)) \<and>
            (length (swaps (rs ! i)) = length (swaps (bestRoute rate ! i)) \<longrightarrow>
               swaps (rs ! i) = swaps (bestRoute rate ! i)) \<and>
            (swaps (rs ! i) = [] \<longleftrightarrow> swaps (bestRoute rate ! i) = []) \<and>
            (swaps (bestRoute rate ! i) \<noteq> [] \<longrightarrow>
               srcSide (hd (swaps (rs ! i))) = srcSide (hd (swaps (bestRoute rate ! i))) \<and>
               destSide (last (swaps (rs ! i))) = destSide (last (swaps (bestRoute rate ! i))))"
    if "i < length (bestRoute rate)" for i
  proof -
    from nth[OF that] obtain sw where
      sw: "fixRoute fp CurveV1FactoryForks (swaps (bestRoute rate ! i)) = Inr sw"
      and eq: "rs ! i = (bestRoute rate ! i)\<lparr>swaps := sw\<rparr>"
      by (auto simp: fixedRoute_def split: sum.splits)
    from fixRoute_length[OF sw] fixRoute_ends[OF sw] eq show ?thesis by simp
  qed
  moreover have "bestRoute rate' = rs" using r' by simp
  ultimately show ?thesis using r' len by simp
qed

theorem curveV1Merge_frame_witness:
  "curveV1Merge exprFloat [''curvev1factory'']
     (rateOf V6 [curveHop ''0xaa'' ''0xBB'' exchangeAB, curveHop ''0xbb'' ''0xcc'' exchangeBC]) =
   Inr (rateOf V6 [curveHop ''0xaa'' ''0xcc''
     (curveExchange [legOf ''0xaa'' ''0xBB'', legOf ''0xbb'' ''0xcc'']
        ''(parseFloat(0.0012) + parseFloat(0.000034)).toFixed(6)'' ''1000'' ''985''
        [''0xp1'', ''0xp2''])]) \<and>
   rateSrcAmount (rateOf V6 [curveHop ''0xaa'' ''0xcc''
     (curveExchange [legOf ''0xaa'' ''0xBB'', legOf ''0xbb'' ''0xcc'']
        ''(parseFloat(0.0012) + parseFloat(0.000034)).toFixed(6)'' ''1000'' ''985''
        [''0xp1'', ''0xp2''])]) =
   rateSrcAmount (rateOf V6 [curveHop ''0xaa'' ''0xBB'' exchangeAB, curveHop ''0xbb'' ''0xcc'' exchangeBC]) \<and>
   length (bestRoute (rateOf V6 [curveHop ''0xaa'' ''0xcc''
     (curveExchange [legOf ''0xaa'' ''0xBB'', legOf ''0xbb'' ''0xcc'']
        ''(parseFloat(0.0012) + parseFloat(0.000034)).toFixed(6)'' ''1000'' ''985''
        [''0xp1'', ''0xp2''])])) =
   length (bestRoute (rateOf V6 [curveHop ''0xaa'' ''0xBB'' exchangeAB, curveHop ''0xbb'' ''0xcc'' exchangeBC]))"
  using curveV1Merge_frame [OF example_merge_AB_BC] example_merge_AB_BC
  by simp

section \<open>Properties of the local SDK\<close>

subsection \<open>Sampling the price curve\<close>

lemma amounts_nth: "i \<le> 10 \<Longrightarrow> amounts amount ! i = (amount * int i) sdiv 10"
  by (simp add: amounts_def chunks_def)

lemma sdiv_nonneg: "0 \<le> a \<Longrightarrow> a sdiv (10::int) = a div 10"
  by (simp add: signed_divide_int_def sgn_if)

text \<open>
  Claim C5.  For a non-negative amount, \<^verbatim>\<open>getPrices\<close> samples exactly 11 amounts, the
  \<open>i\<close>-th being \<open>\<lfloor>amount \<cdot> i / 10\<rfloor>\<close> in integer arithmetic; the first is \<open>0\<close>, the last is
  the amount itself, and the samples never decrease.
\<close>

theorem amounts_samples:
  assumes "0 \<le> amount"
  shows "length (amounts amount) = 11 \<and>
         (\<forall>i \<le> 10. amounts amount ! i = (amount * int i) div 10) \<and>
         amounts amount ! 0 = 0 \<and>
         amounts amount ! 10 = amount \<and>
         sorted (amounts amount)"
proof -
  have nth: "amounts amount ! i = (amount * int i) div 10" if "i \<le> 10" for i
    using amounts_nth[OF that] sdiv_nonneg[of "amount * int i"] assms by simp
  have len: "length (amounts amount) = 11" by (simp add: amounts_def chunks_def)
  have "amounts amount ! i \<le> amounts amount ! j" if "i \<le> j" "j < length (amounts amount)" for i j
  proof -
    from that len have "i \<le> 10" "j \<le> 10" by auto
    moreover have "amount * int i \<le> amount * int j" using that assms by (simp add: mult_left_mono)
    ultimately show ?thesis using nth by (simp add: zdiv_mono1)
  qed
  then have "sorted (amounts amount)" by (simp add: sorted_iff_nth_mono)
  with nth len show ?thesis using nth[of 0] nth[of 10] by simp
qed

lemma amounts_1000: "amounts 1000 = [0, 100, 200, 300, 400, 500, 600, 700, 800, 900, 1000]"
  by code_simp

theorem amounts_samples_witness:
  "(0::int) \<le> 1000 \<and>
   amounts 1000 = [0, 100, 200, 300, 400, 500, 600, 700, 800, 900, 1000] \<and>
   length (amounts 1000) = 11 \<and> amounts 1000 ! 10 = 1000 \<and> sorted (amounts 1000)"
  using amounts_samples [of 1000] amounts_1000 by simp

subsection \<open>Selecting the quote\<close>

text \<open>
  Claim C6.  When the pricing collaborator answers with a non-empty list of quotes, and the
  first quote has a price for every sample point, \<^verbatim>\<open>getPrices\<close> takes the first quote and
  reads its price at the terminal sample.  For a sale the source amount is the given amount
  and the destination amount is that price, and conversely for a purchase.  The rate it
  builds and hands to the rate optimiser has exactly one route with one swap with one swap
  exchange, with percent 100 on the route and on the exchange.
\<close>

theorem getPrices_first_quote:
  assumes "getPoolPrices (pricingHelper sdk) from to (amounts amount) sd
             (getBlockNumber (dexHelper sdk)) (dexKeys sdk)
             (case poolIds of
                Some ids \<Rightarrow> ids
              | None \<Rightarrow> getPoolIdentifiers (pricingHelper sdk) from to sd
                          (getBlockNumber (dexHelper sdk)) (dexKeys sdk))
             transferFees = Some (finalPrice # rest)"
    and "chunks < length (prices finalPrice)"
  shows "let quoteAmount = prices finalPrice ! 10;
             srcAmt = toString (if sd = SELL then amount else quoteAmount);
             destAmt = toString (if sd = SELL then quoteAmount else amount);
             u = unoptimizedRateOf sdk from to sd finalPrice srcAmt destAmt
         in getPrices sdk from to amount sd method poolIds transferFees =
              Inr (unoptimizedRate.extend (optimizeRate (pricingHelper sdk) u)
                     (optimalRate.fields ''0'' ''0'' ''0'' method 0)) \<and>
            rateSrcAmount u = srcAmt \<and>
            rateDestAmount u = destAmt \<and>
            bestRoute u =
              [\<lparr>routePercent = 100,
                swaps =
                  [\<lparr>srcToken = address from, srcDecimals = decimals from,
                    destToken = address to, destDecimals = decimals to,
                    swapExchanges =
                      [\<lparr>exchange = quoteExchange finalPrice,
                        srcAmount = srcAmt,
                        destAmount = destAmt,
                        percent = 100,
                        data = quoteData finalPrice,
                        poolAddresses = quotePoolAddresses finalPrice\<rparr>]\<rparr>]\<rparr>]"
  using assms
  by (simp add: getPrices_def Let_def unoptimizedRateOf_def chunks_def)

lemma getPrices_empty:
  "getPoolPrices (pricingHelper sdk) from to (amounts amount) sd
             (getBlockNumber (dexHelper sdk)) (dexKeys sdk)
             (case poolIds of
                Some ids \<Rightarrow> ids
              | None \<Rightarrow> getPoolIdentifiers (pricingHelper sdk) from to sd
                          (getBlockNumber (dexHelper sdk)) (dexKeys sdk))
             transferFees \<in> {None, Some []} \<Longrightarrow>
   getPrices sdk from to amount sd method poolIds transferFees =
     Inl (Error (''Fail to get price for '' @ join '', '' (dexKeys sdk)))"
  by (auto simp: getPrices_def Let_def)

lemma toString_examples:
  "toString 1000 = ''1000''" "toString 980 = ''980''" "toString 1300 = ''1300''"
  "toString 1600 = ''1600''"
  by code_simp+

theorem getPrices_first_quote_witness:
  "getPoolPrices (pricingHelper exampleSDK) \<lparr>address = ''0xaa'', decimals = 18\<rparr>
     \<lparr>address = ''0xbb'', decimals = 6\<rparr> (amounts 1000) SELL
     (getBlockNumber (dexHelper exampleSDK)) (dexKeys exampleSDK) [] None
   = Some [\<lparr>prices = amounts 1000,
            quoteData = \<lparr>path = [legOf ''0xaa'' ''0xbb''], gasUSD = ''0.0012'', otherData = ''''\<rparr>,
            quoteExchange = ''CurveV1Factory'',
            quotePoolAddresses = Some [Some ''0xp1'']\<rparr>] \<and>
   chunks < length (amounts 1000) \<and>
   getPrices exampleSDK \<lparr>address = ''0xaa'', decimals = 18\<rparr> \<lparr>address = ''0xbb'', decimals = 6\<rparr>
     1000 SELL ''multiSwap'' None None =
   Inr (unoptimizedRate.extend
     \<lparr>blockNumber = 100, network = 1, rateSrcToken = ''0xaa'', rateSrcDecimals = 18,
      rateSrcAmount = ''1000'', rateDestToken = ''0xbb'', rateDestDecimals = 6,
      rateDestAmount = ''1000'',
      bestRoute =
        [\<lparr>routePercent = 100,
          swaps =
            [\<lparr>srcToken = ''0xaa'', srcDecimals = 18, destToken = ''0xbb'', destDecimals = 6,
              swapExchanges =
                [\<lparr>exchange = ''CurveV1Factory'', srcAmount = ''1000'', destAmount = ''1000'',
                  percent = 100,
                  data = \<lparr>path = [legOf ''0xaa'' ''0xbb''], gasUSD = ''0.0012'', otherData = ''''\<rparr>,
                  poolAddresses = Some [Some ''0xp1'']\<rparr>]\<rparr>]\<rparr>],
      gasCostUSD = ''0'', gasCost = ''0'', others = [], version = V5, side = SELL,
      tokenTransferProxy = ''0x01'', contractAddress = ''0x02''\<rparr>
     (optimalRate.fields ''0'' ''0'' ''0'' ''multiSwap'' 0))"
  using getPrices_first_quote [of exampleSDK "\<lparr>address = ''0xaa'', decimals = 18\<rparr>"
      "\<lparr>address = ''0xbb'', decimals = 6\<rparr>" 1000 SELL None None
      "\<lparr>prices = amounts 1000,
            quoteData = \<lparr>path = [legOf ''0xaa'' ''0xbb''], gasUSD = ''0.0012'', otherData = ''''\<rparr>,
            quoteExchange = ''CurveV1Factory'',
            quotePoolAddresses = Some [Some ''0xp1'']\<rparr>" "[]" "''multiSwap''"]
    amounts_1000 toString_examples
  by (simp add: exampleSDK_def chunks_def Let_def unoptimizedRateOf_def)

subsection \<open>Threading the deadline through the preprocessing\<close>

lemma effective_Cons:
  "effective (info # infos) =
     (case txDeadline info of None \<Rightarrow> [] | Some d \<Rightarrow> if d \<noteq> 0 then [d] else []) @ effective infos"
  by (simp add: effective_def split: option.splits)

lemma effective_append: "effective (xs @ ys) = effective xs @ effective ys"
  by (simp add: effective_def)

lemma foldl_reconcile:
  "foldl reconcile dl infos = Min (set (dl # effective infos))"
proof (induction infos arbitrary: dl)
  case Nil
  then show ?case by (simp add: effective_def)
next
  case (Cons info infos)
  show ?case
  proof (cases "txDeadline info")
    case None
    then show ?thesis using Cons.IH[of dl] by (simp add: reconcile_def effective_Cons)
  next
    case (Some d)
    show ?thesis
    proof (cases "d = 0")
      case True
      with Some show ?thesis using Cons.IH[of dl] by (simp add: reconcile_def effective_Cons)
    next
      case False
      have "Min (insert dl (insert d (set (effective infos)))) =
            Min (insert (min d dl) (set (effective infos)))"
        by (cases "set (effective infos) = {}") (simp_all add: min.assoc min.commute)
      moreover have "reconcile dl info = min d dl" using Some False
        by (simp add: reconcile_def min_def)
      ultimately show ?thesis using Some False Cons.IH[of "min d dl"]
        by (simp add: effective_Cons)
    qed
  qed
qed

lemma mapIndexedE_state:
  assumes "\<And>i s x y s'. f i s x = Inr (y, s') \<Longrightarrow> s' = foldl reconcile s (P i x)"
  shows "mapIndexedE f k xs s = Inr (ys, s') \<Longrightarrow>
         s' = foldl reconcile s (concat (map (\<lambda>(i, x). P i x) (enumerate k xs)))"
proof (induction xs arbitrary: k s ys)
  case Nil
  then show ?case by simp
next
  case (Cons x xs)
  then obtain y s1 ys1 where a: "f k s x = Inr (y, s1)"
    and b: "mapIndexedE f (Suc k) xs s1 = Inr (ys1, s')"
    by (auto split: sum.splits prod.splits error.splits)
  from assms[OF a] Cons.IH[OF b] show ?case by simp
qed



lemma preprocessExchange_state:
  "preprocessExchange sdk dcm rate minMax user ri swap si dl se = Inr (se', dl') \<Longrightarrow>
     dl' = foldl reconcile dl (proposal sdk dcm rate minMax user ri swap si se)"
  by (auto simp: preprocessExchange_def proposal_def split: option.splits sum.splits prod.splits)

lemma enumerate_ignore: "map (\<lambda>(i, x). P x) (enumerate k xs) = map P xs"
  by (induction xs arbitrary: k) auto

lemma preprocessSwap_state:
  assumes "preprocessSwap sdk dcm rate minMax user ri si dl swap = Inr (swap', dl')"
  shows "dl' = foldl reconcile dl (proposalsOfSwap sdk dcm rate minMax user ri si swap)"
proof -
  from assms obtain ses where
    m: "mapIndexedE (\<lambda>_ d se. preprocessExchange sdk dcm rate minMax user ri swap si d se)
          0 (swapExchanges swap) dl = Inr (ses, dl')"
    by (auto simp: preprocessSwap_def split: sum.splits prod.splits)
  have "dl' = foldl reconcile dl
          (concat (map (\<lambda>(i, x). proposal sdk dcm rate minMax user ri swap si x)
             (enumerate 0 (swapExchanges swap))))"
    by (rule mapIndexedE_state[OF _ m]) (rule preprocessExchange_state)
  then show ?thesis by (simp add: proposalsOfSwap_def enumerate_ignore)
qed

lemma preprocessRoute_state:
  assumes "preprocessRoute sdk dcm rate minMax user ri dl route = Inr (route', dl')"
  shows "dl' = foldl reconcile dl (proposalsOfRoute sdk dcm rate minMax user ri route)"
proof -
  from assms obtain sws where
    m: "mapIndexedE (\<lambda>si d swap. preprocessSwap sdk dcm rate minMax user ri si d swap)
          0 (swaps route) dl = Inr (sws, dl')"
    by (auto simp: preprocessRoute_def split: sum.splits prod.splits)
  have "dl' = foldl reconcile dl
          (concat (map (\<lambda>(i, x). proposalsOfSwap sdk dcm rate minMax user ri i x)
             (enumerate 0 (swaps route))))"
    by (rule mapIndexedE_state[OF _ m]) (rule preprocessSwap_state)
  then show ?thesis by (simp add: proposalsOfRoute_def)
qed

lemma preprocessAll_state:
  assumes "preprocessAll sdk dcm now rate minMax user = Inr (routes, dl)"
  shows "dl = Min (set (initialDeadline now # effective (proposals sdk dcm rate minMax user)))"
proof -
  have "dl = foldl reconcile (initialDeadline now)
          (concat (map (\<lambda>(i, x). proposalsOfRoute sdk dcm rate minMax user i x)
             (enumerate 0 (bestRoute rate))))"
    by (rule mapIndexedE_state[OF _ assms[unfolded preprocessAll_def]])
       (rule preprocessRoute_state)
  then show ?thesis by (simp add: proposals_def foldl_reconcile)
qed









subsection \<open>Runs of the examples\<close>

lemma example_early:
  "buildRequest exampleSDK [] 1000000 ''r1''
     (priceRouteOf [exchangeOn ''Early'', exchangeOn ''Plain'', exchangeOn ''Plain'']) 980 ''0xuser'' =
   Inr \<lparr>priceRoute = priceRouteOf [exchangeOn ''Early'', exchangeOn ''Plain'', exchangeOn ''Plain''],
        minMaxAmount = ''980'', userAddress = ''0xuser'', partnerAddress = NULL_ADDRESS,
        partnerFeePercent = ''0'', deadline = ''1300'', uuid = ''r1''\<rparr>"
  using toString_examples
  by (simp add: buildRequest_def preprocessAll_def preprocessRoute_def preprocessSwap_def
      preprocessExchange_def callPreProcess_def priceRouteOf_def rateOf_def exchangeOn_def
      exampleSDK_def exampleRegistry_def venueProposing_def venuePlain_def reconcile_def
      initialDeadline_def Let_def unoptimizedRate.defs optimalRate.defs)

lemma example_early_proposals:
  "proposals exampleSDK []
     (priceRouteOf [exchangeOn ''Early'', exchangeOn ''Plain'', exchangeOn ''Plain'']) 980 ''0xuser'' =
   [\<lparr>txDeadline = Some 1300\<rparr>]"
  by (simp add: proposals_def proposalsOfRoute_def proposalsOfSwap_def proposal_def
      callPreProcess_def priceRouteOf_def rateOf_def exchangeOn_def
      exampleSDK_def exampleRegistry_def venueProposing_def venuePlain_def
      Let_def unoptimizedRate.defs optimalRate.defs enumerate_eq_zip)

lemma example_zero:
  "buildRequest exampleSDK [] 1000000 ''r1'' (priceRouteOf [exchangeOn ''Zero'']) 980 ''0xuser'' =
   Inr \<lparr>priceRoute = priceRouteOf [exchangeOn ''Zero''],
        minMaxAmount = ''980'', userAddress = ''0xuser'', partnerAddress = NULL_ADDRESS,
        partnerFeePercent = ''0'', deadline = ''1600'', uuid = ''r1''\<rparr>"
  using toString_examples
  by (simp add: buildRequest_def preprocessAll_def preprocessRoute_def preprocessSwap_def
      preprocessExchange_def callPreProcess_def priceRouteOf_def rateOf_def exchangeOn_def
      exampleSDK_def exampleRegistry_def venueProposing_def reconcile_def
      initialDeadline_def Let_def unoptimizedRate.defs optimalRate.defs)

lemma example_zero_proposals:
  "proposals exampleSDK [] (priceRouteOf [exchangeOn ''Zero'']) 980 ''0xuser'' =
   [\<lparr>txDeadline = Some 0\<rparr>]"
  by (simp add: proposals_def proposalsOfRoute_def proposalsOfSwap_def proposal_def
      callPreProcess_def priceRouteOf_def rateOf_def exchangeOn_def
      exampleSDK_def exampleRegistry_def venueProposing_def
      Let_def unoptimizedRate.defs optimalRate.defs enumerate_eq_zip)

subsection \<open>The reconciled deadline\<close>

text \<open>
  Claim C7 (as amended).  When the assembly reaches the transaction builder, the deadline in
  the payload is the decimal numeral of the minimum of the initial default (the current unix
  time in seconds plus 600) and every venue-proposed deadline that is present and not zero.
  It is at most the initial default and at most every venue-proposed deadline that is present
  and not zero.  A proposal of zero is not taken into account.
\<close>

theorem buildRequest_deadline:
  assumes "buildRequest sdk DirectContractMethods now requestId rate minMax user = Inr params"
  shows "deadline params =
           toString (Min (set (initialDeadline now #
              effective (proposals sdk DirectContractMethods rate minMax user)))) \<and>
         Min (set (initialDeadline now #
              effective (proposals sdk DirectContractMethods rate minMax user)))
           \<le> initialDeadline now \<and>
         (\<forall>info \<in> set (proposals sdk DirectContractMethods rate minMax user).
            \<forall>d. txDeadline info = Some d \<longrightarrow> d \<noteq> 0 \<longrightarrow>
              Min (set (initialDeadline now #
                effective (proposals sdk DirectContractMethods rate minMax user))) \<le> d) \<and>
         buildTransaction sdk DirectContractMethods now requestId rate minMax user =
           build (transactionBuilder sdk) params"
proof -
  from assms obtain routes dl where
    a: "preprocessAll sdk DirectContractMethods now rate minMax user = Inr (routes, dl)"
    and p: "deadline params = toString dl"
    by (auto simp: buildRequest_def split: sum.splits prod.splits)
  have d: "dl = Min (set (initialDeadline now #
              effective (proposals sdk DirectContractMethods rate minMax user)))"
    by (rule preprocessAll_state[OF a])
  have "d \<in> set (effective (proposals sdk DirectContractMethods rate minMax user))"
    if "info \<in> set (proposals sdk DirectContractMethods rate minMax user)"
      "txDeadline info = Some d" "d \<noteq> 0" for info d
    using that by (force simp: effective_def)
  then show ?thesis using p d assms
    by (auto simp: buildTransaction_def bindE_def intro!: Min_le)
qed

theorem buildRequest_deadline_witness:
  "buildRequest exampleSDK [] 1000000 ''r1''
     (priceRouteOf [exchangeOn ''Early'', exchangeOn ''Plain'', exchangeOn ''Plain'']) 980 ''0xuser'' =
   Inr \<lparr>priceRoute = priceRouteOf [exchangeOn ''Early'', exchangeOn ''Plain'', exchangeOn ''Plain''],
        minMaxAmount = ''980'', userAddress = ''0xuser'', partnerAddress = NULL_ADDRESS,
        partnerFeePercent = ''0'', deadline = ''1300'', uuid = ''r1''\<rparr> \<and>
   initialDeadline 1000000 = 1600 \<and>
   effective (proposals exampleSDK []
     (priceRouteOf [exchangeOn ''Early'', exchangeOn ''Plain'', exchangeOn ''Plain'']) 980 ''0xuser'')
     = [1300] \<and>
   ''1300'' = toString (Min (set [1600, 1300])) \<and>
   buildTransaction exampleSDK [] 1000000 ''r1''
     (priceRouteOf [exchangeOn ''Early'', exchangeOn ''Plain'', exchangeOn ''Plain'']) 980 ''0xuser'' =
   Inr ''1300''"
proof -
  have eff: "effective (proposals exampleSDK []
     (priceRouteOf [exchangeOn ''Early'', exchangeOn ''Plain'', exchangeOn ''Plain'']) 980 ''0xuser'')
     = [1300]"
    using example_early_proposals by (simp add: effective_def)
  have d0: "initialDeadline 1000000 = 1600" by (simp add: initialDeadline_def)
  have b: "build (transactionBuilder exampleSDK)
     \<lparr>priceRoute = priceRouteOf [exchangeOn ''Early'', exchangeOn ''Plain'', exchangeOn ''Plain''],
        minMaxAmount = ''980'', userAddress = ''0xuser'', partnerAddress = NULL_ADDRESS,
        partnerFeePercent = ''0'', deadline = ''1300'', uuid = ''r1''\<rparr> = Inr ''1300''"
    by (simp add: exampleSDK_def)
  from buildRequest_deadline [OF example_early] example_early eff d0 b
  show ?thesis by simp
qed

text \<open>
  The claim as first stated bounds the deadline by every proposed deadline.  A venue that
  proposes \<open>0\<close> is not followed: the payload keeps the default.
\<close>

theorem buildRequest_zero_proposal_ignored:
  "buildRequest exampleSDK [] 1000000 ''r1'' (priceRouteOf [exchangeOn ''Zero'']) 980 ''0xuser'' =
   Inr \<lparr>priceRoute = priceRouteOf [exchangeOn ''Zero''],
        minMaxAmount = ''980'', userAddress = ''0xuser'', partnerAddress = NULL_ADDRESS,
        partnerFeePercent = ''0'', deadline = ''1600'', uuid = ''r1''\<rparr> \<and>
   proposals exampleSDK [] (priceRouteOf [exchangeOn ''Zero'']) 980 ''0xuser'' =
     [\<lparr>txDeadline = Some 0\<rparr>] \<and>
   initialDeadline 1000000 = 1600 \<and>
   ''1600'' = toString 1600 \<and>
   \<not> (1600::int) \<le> 0 \<and>
   ''1600'' \<noteq> toString (min (initialDeadline 1000000) 0)"
proof -
  have "toString 0 = ''0''" by code_simp
  then show ?thesis
    using example_zero example_zero_proposals toString_examples
    by (simp add: initialDeadline_def)
qed

text \<open>
  Claim C10.  One reconciliation step leaves the deadline as it is when the proposal is
  absent or zero; it changes the deadline only to a proposal that is present, not zero and
  strictly smaller.  With a clock at or after the epoch, the reconciled deadline of a whole
  run is never \<open>0\<close>, and it is the initial default when no venue proposes a deadline other
  than \<open>0\<close>.
\<close>

theorem reconcile_ignores_absent_and_zero:
  "(txDeadline info = None \<or> txDeadline info = Some 0 \<longrightarrow> reconcile dl info = dl) \<and>
   (\<forall>d. txDeadline info = Some d \<and> d \<noteq> 0 \<and> d < dl \<longrightarrow> reconcile dl info = d) \<and>
   (reconcile dl info \<noteq> dl \<longrightarrow>
      (\<exists>d. txDeadline info = Some d \<and> d \<noteq> 0 \<and> d < dl \<and> reconcile dl info = d)) \<and>
   (0 \<le> now \<and> preprocessAll sdk DirectContractMethods now rate minMax user = Inr (routes, final)
      \<longrightarrow> final \<noteq> 0 \<and>
          (effective (proposals sdk DirectContractMethods rate minMax user) = []
             \<longrightarrow> final = initialDeadline now))"
proof -
  have "final \<noteq> 0 \<and>
          (effective (proposals sdk DirectContractMethods rate minMax user) = []
             \<longrightarrow> final = initialDeadline now)"
    if "0 \<le> now" and a: "preprocessAll sdk DirectContractMethods now rate minMax user = Inr (routes, final)"
  proof -
    let ?S = "set (initialDeadline now # effective (proposals sdk DirectContractMethods rate minMax user))"
    have f: "final = Min ?S" by (rule preprocessAll_state[OF a])
    have "Min ?S \<in> ?S" by (rule Min_in) simp_all
    moreover have "0 \<notin> ?S" using that(1) by (auto simp: initialDeadline_def effective_def)
    ultimately have "final \<noteq> 0" using f by metis
    with f show ?thesis by auto
  qed
  then show ?thesis by (auto simp: reconcile_def split: option.splits)
qed

theorem reconcile_ignores_absent_and_zero_witness:
  "txDeadline \<lparr>txDeadline = Some 0\<rparr> = Some 0 \<and>
   reconcile 1600 \<lparr>txDeadline = Some 0\<rparr> = 1600 \<and>
   reconcile 1600 \<lparr>txDeadline = None\<rparr> = 1600 \<and>
   reconcile 1600 \<lparr>txDeadline = Some 1300\<rparr> = 1300 \<and>
   reconcile 1600 \<lparr>txDeadline = Some 1700\<rparr> = 1600 \<and>
   (0::int) \<le> 1000000 \<and>
   preprocessAll exampleSDK [] 1000000 (priceRouteOf [exchangeOn ''Zero'']) 980 ''0xuser'' =
     Inr (bestRoute (priceRouteOf [exchangeOn ''Zero'']), 1600) \<and>
   (1600::int) \<noteq> 0"
proof -
  have a: "preprocessAll exampleSDK [] 1000000 (priceRouteOf [exchangeOn ''Zero'']) 980 ''0xuser'' =
     Inr (bestRoute (priceRouteOf [exchangeOn ''Zero'']), 1600)"
    by (simp add: preprocessAll_def preprocessRoute_def preprocessSwap_def
      preprocessExchange_def callPreProcess_def priceRouteOf_def rateOf_def exchangeOn_def
      exampleSDK_def exampleRegistry_def venueProposing_def reconcile_def
      initialDeadline_def Let_def unoptimizedRate.defs optimalRate.defs)
  show ?thesis
    using reconcile_ignores_absent_and_zero [of "\<lparr>txDeadline = Some 0\<rparr>" 1600 1000000 exampleSDK "[]"
        "priceRouteOf [exchangeOn ''Zero'']" 980 "''0xuser''"
        "bestRoute (priceRouteOf [exchangeOn ''Zero''])" 1600] a
    by (simp add: reconcile_def)
qed

subsection \<open>Venues without token lookup\<close>

lemma example_rejection:
  "buildTransaction exampleSDK [] 1000000 ''r1''
     (priceRouteOf [exchangeOn ''Reject'', exchangeOn ''Plain'']) 980 ''0xuser'' =
   Inl (Raced [Rejected ''boom''])"
  by (simp add: buildTransaction_def bindE_def buildRequest_def preprocessAll_def
      preprocessRoute_def preprocessSwap_def
      preprocessExchange_def callPreProcess_def priceRouteOf_def rateOf_def exchangeOn_def
      exampleSDK_def exampleRegistry_def venueRejecting_def venuePlain_def
      initialDeadline_def Let_def unoptimizedRate.defs optimalRate.defs)





end
